theory Spec2Isabelle
  imports Main "HOL-Library.Word"
begin

section \<open>The IKEv2 message of charon: \<^verbatim>\<open>Source/charon/message.c\<close>\<close>

text \<open>
  The development follows \<^verbatim>\<open>message.c\<close> function by function. A \<^verbatim>\<open>private_message_t\<close>
  is a record; the objects it points to are held as follows.
  \<^item> Payload objects live in an explicit store, a function from addresses to payloads: a
    \<^verbatim>\<open>payload_t *\<close> handed to the message points to a payload. The chain
    (\<^verbatim>\<open>linked_list_t *payloads\<close>) is the list of the addresses inserted, in insertion
    order, and \<^verbatim>\<open>set_next_type\<close> writes the object at an address, so two entries of a
    chain that hold the same address share their next-type.
  \<^item> \<^verbatim>\<open>ike_sa_id_t\<close> objects live in a store of cells: the message holds a pointer,
    \<^verbatim>\<open>clone\<close> allocates a new cell, \<^verbatim>\<open>destroy\<close> releases one.
  \<^item> Every allocation can fail. The store carries the outcomes of the coming allocation
    requests; a request made when that list is exhausted succeeds.
  \<^item> Dereferencing a NULL pointer or a released ike-sa-id is a fault, the \<open>Inl\<close> branch of
    a result.
  \<^item> The logger is the list of lines written so far.
  Generator, parser, payloads and the header object are collaborators whose code is in other
  files; they are parameters of the model (a record of functions).
\<close>

subsection \<open>Types of the collaborating headers\<close>

type_synonym byte = "8 word"

text \<open>\<^verbatim>\<open>chunk_t\<close>: a pointer and a length; \<open>None\<close> is the chunk whose pointer is NULL.\<close>

type_synonym chunk = "byte list option"

text \<open>
  Modelled from the spec: \<^verbatim>\<open>types.h\<close> is missing. \<^verbatim>\<open>status_t\<close> with the values
  \<^verbatim>\<open>message.c\<close> names, and \<open>PARSE_ERROR\<close> for the decode failure a parser reports.
\<close>

datatype status =
  SUCCESS | FAILED | OUT_OF_RES | NOT_FOUND | NOT_SUPPORTED | INVALID_STATE
  | VERIFY_ERROR | PARSE_ERROR

text \<open>
  Modelled from the spec: \<^verbatim>\<open>payloads/payload.h\<close> is missing. \<^verbatim>\<open>payload_type_t\<close> with the
  enumerators \<^verbatim>\<open>message.c\<close> names; \<open>PAYLOAD_TYPE_OTHER n\<close> is any other enumerator.
\<close>

datatype payload_type =
  NO_PAYLOAD | SECURITY_ASSOCIATION | KEY_EXCHANGE | NONCE | HEADER
  | PAYLOAD_TYPE_OTHER nat

text \<open>
  Modelled from the spec: \<^verbatim>\<open>exchange_type_t\<close> is declared in a missing header. The
  undefined sentinel, \<open>IKE_SA_INIT\<close>, and \<open>EXCHANGE_TYPE_OTHER n\<close> for any other
  exchange type.
\<close>

datatype exchange_type =
  EXCHANGE_TYPE_UNDEFINED | IKE_SA_INIT | EXCHANGE_TYPE_OTHER nat

text \<open>
  Modelled from the spec: \<^verbatim>\<open>ike_sa_id.h\<close> is missing. An IKE SA identifier is two SPIs
  and the initiator flag.
\<close>

record ike_sa_id =
  initiator_spi :: "64 word"
  responder_spi :: "64 word"
  is_initiator :: bool

text \<open>
  Modelled from the spec: \<^verbatim>\<open>payloads/ike_header.h\<close> is missing. The fields of the fixed
  header that \<^verbatim>\<open>message.c\<close> reads and writes through the header's accessors.
\<close>

record ike_header =
  hdr_initiator_spi :: "64 word"
  hdr_responder_spi :: "64 word"
  hdr_next_payload :: payload_type
  hdr_maj_version :: byte
  hdr_min_version :: byte
  hdr_exchange_type :: exchange_type
  hdr_initiator_flag :: bool
  hdr_response_flag :: bool
  hdr_message_id :: "32 word"

text \<open>
  A payload of the chain, as \<^verbatim>\<open>message.c\<close> sees it through \<^verbatim>\<open>payload_t\<close>: its type, its
  next-type link, and its type-specific content (opaque to the message).
\<close>

record payload =
  pl_type :: payload_type
  pl_next :: payload_type
  pl_body :: "byte list"

text \<open>What a \<^verbatim>\<open>payload_t *\<close> can point to in \<^verbatim>\<open>generate\<close>: the header or a payload.\<close>

datatype payload_obj = Header_obj ike_header | Payload_obj payload

fun get_type :: "payload_obj \<Rightarrow> payload_type" where
  "get_type (Header_obj h) = HEADER"
| "get_type (Payload_obj p) = pl_type p"

fun set_next_type :: "payload_obj \<Rightarrow> payload_type \<Rightarrow> payload_obj" where
  "set_next_type (Header_obj h) t = Header_obj (h\<lparr>hdr_next_payload := t\<rparr>)"
| "set_next_type (Payload_obj p) t = Payload_obj (p\<lparr>pl_next := t\<rparr>)"

text \<open>
  Modelled from the spec: \<^verbatim>\<open>host_t\<close> and \<^verbatim>\<open>packet_t\<close> are declared in missing headers. A
  packet owns a source and a destination address (either may be NULL) and a byte buffer.
\<close>

datatype host = Host "byte list" "16 word"

record packet =
  source :: "host option"
  destination :: "host option"
  data :: chunk

subsection \<open>Store, allocation, logger\<close>

type_synonym addr = nat

record memory =
  sa_cells :: "ike_sa_id option list"
  payload_cells :: "addr \<Rightarrow> payload"
  payload_count :: nat
  alloc_plan :: "bool list"

datatype fault = NULL_DEREFERENCE | DANGLING_POINTER

text \<open>One allocation request: its outcome, and the store with the request consumed.\<close>

definition allocate :: "memory \<Rightarrow> bool \<times> memory" where
  "allocate mem =
     (case alloc_plan mem of
        [] \<Rightarrow> (True, mem)
      | ok # plan \<Rightarrow> (ok, mem\<lparr>alloc_plan := plan\<rparr>))"

text \<open>
  The object a parser has created for a decoded payload. Its address is not in use: it is
  above every address handed out so far (\<open>payload_count\<close>) and above the addresses in the
  chain the payload is parsed for.
\<close>

definition new_payload :: "addr list \<Rightarrow> payload \<Rightarrow> memory \<Rightarrow> addr \<times> memory" where
  "new_payload chain p mem =
     (let a = fold max (map Suc chain) (payload_count mem)
      in (a, mem\<lparr>payload_cells := (payload_cells mem)(a := p), payload_count := Suc a\<rparr>))"

definition sa_lookup :: "memory \<Rightarrow> addr \<Rightarrow> ike_sa_id option" where
  "sa_lookup mem a = (if a < length (sa_cells mem) then sa_cells mem ! a else None)"

text \<open>
  Modelled from the spec: \<^verbatim>\<open>ike_sa_id.c\<close> is missing. \<^verbatim>\<open>ike_sa_id_create\<close> allocates an
  object holding the three values, or returns NULL; \<^verbatim>\<open>clone\<close> is a deep copy (a new object
  with the same values); \<^verbatim>\<open>destroy\<close> releases the object.
\<close>

definition ike_sa_id_create ::
  "64 word \<Rightarrow> 64 word \<Rightarrow> bool \<Rightarrow> memory \<Rightarrow> addr option \<times> memory" where
  "ike_sa_id_create ispi rspi init mem =
     (case allocate mem of
        (False, mem') \<Rightarrow> (None, mem')
      | (True, mem') \<Rightarrow>
          (Some (length (sa_cells mem')),
           mem'\<lparr>sa_cells := sa_cells mem' @
             [Some \<lparr>initiator_spi = ispi, responder_spi = rspi, is_initiator = init\<rparr>]\<rparr>))"

definition ike_sa_id_clone ::
  "addr \<Rightarrow> memory \<Rightarrow> fault + (status \<times> addr option \<times> memory)" where
  "ike_sa_id_clone a mem =
     (case sa_lookup mem a of
        None \<Rightarrow> Inl DANGLING_POINTER
      | Some sa \<Rightarrow>
          (case ike_sa_id_create (initiator_spi sa) (responder_spi sa) (is_initiator sa) mem of
             (None, mem') \<Rightarrow> Inr (OUT_OF_RES, None, mem')
           | (Some b, mem') \<Rightarrow> Inr (SUCCESS, Some b, mem')))"

definition ike_sa_id_destroy :: "addr \<Rightarrow> memory \<Rightarrow> fault + memory" where
  "ike_sa_id_destroy a mem =
     (case sa_lookup mem a of
        None \<Rightarrow> Inl DANGLING_POINTER
      | Some sa \<Rightarrow> Inr (mem\<lparr>sa_cells := (sa_cells mem)[a := None]\<rparr>))"

text \<open>The lines \<^verbatim>\<open>message.c\<close> writes to its logger, with their arguments.\<close>

datatype log_level = CONTROL | ERROR | CONTROL_MORE | CONTROL_MOST

datatype log_text =
  Generating_message nat
  | Exchange_type_not_defined
  | Source_destination_not_defined
  | Message_generated
  | Parsing_header
  | Header_not_parsed
  | Header_verification_failed
  | No_ike_sa_id_object
  | Header_parsed
  | Parsing_body
  | No_supported_payloads
  | Start_parsing payload_type
  | Type_not_supported payload_type
  | Not_parsed payload_type
  | Not_verified payload_type
  | Not_inserted
  | No_iterator
  | Too_many payload_type nat nat
  | Too_few payload_type nat
  | Added_payload payload_type

subsection \<open>The message rules (lines 43--115)\<close>

text \<open>\<^verbatim>\<open>size_t\<close> counts are natural numbers: a count never exceeds the length of a chain.\<close>

record supported_payload_entry =
  payload_type :: payload_type
  min_occurence :: nat
  max_occurence :: nat

record message_rule =
  rule_exchange_type :: exchange_type
  rule_is_request :: bool
  supported_payloads :: "supported_payload_entry list"

definition supported_ike_sa_init_i_payloads :: "supported_payload_entry list" where
  "supported_ike_sa_init_i_payloads =
     [\<lparr>payload_type = SECURITY_ASSOCIATION, min_occurence = 1, max_occurence = 1\<rparr>,
      \<lparr>payload_type = KEY_EXCHANGE, min_occurence = 1, max_occurence = 1\<rparr>,
      \<lparr>payload_type = NONCE, min_occurence = 1, max_occurence = 1\<rparr>]"

definition supported_ike_sa_init_r_payloads :: "supported_payload_entry list" where
  "supported_ike_sa_init_r_payloads =
     [\<lparr>payload_type = SECURITY_ASSOCIATION, min_occurence = 1, max_occurence = 1\<rparr>,
      \<lparr>payload_type = KEY_EXCHANGE, min_occurence = 1, max_occurence = 1\<rparr>,
      \<lparr>payload_type = NONCE, min_occurence = 1, max_occurence = 1\<rparr>]"

definition message_rules :: "message_rule list" where
  "message_rules =
     [\<lparr>rule_exchange_type = IKE_SA_INIT, rule_is_request = True,
       supported_payloads = supported_ike_sa_init_i_payloads\<rparr>,
      \<lparr>rule_exchange_type = IKE_SA_INIT, rule_is_request = False,
       supported_payloads = supported_ike_sa_init_r_payloads\<rparr>]"

subsection \<open>The message object (lines 138--219)\<close>

record 'p message =
  major_version :: byte
  minor_version :: byte
  first_payload :: payload_type
  exchange_type :: exchange_type
  is_request :: bool
  message_id :: "32 word"
  ike_sa_id :: "addr option"
  packet :: packet
  payloads :: "addr list"
  parser :: 'p
  logger :: "(log_level \<times> log_text) list"

definition log :: "'p message \<Rightarrow> log_level \<Rightarrow> log_text \<Rightarrow> 'p message" where
  "log m lvl txt = m\<lparr>logger := logger m @ [(lvl, txt)]\<rparr>"

subsection \<open>Accessors (lines 225--376)\<close>

definition get_exchange_type :: "'p message \<Rightarrow> exchange_type" where
  "get_exchange_type m = exchange_type m"

definition get_request :: "'p message \<Rightarrow> bool" where
  "get_request m = is_request m"

text \<open>The scan over \<^verbatim>\<open>message_rules\<close>: the first rule that matches wins.\<close>

fun find_rule ::
  "message_rule list \<Rightarrow> exchange_type \<Rightarrow> bool \<Rightarrow> status \<times> supported_payload_entry list" where
  "find_rule [] et req = (NOT_FOUND, [])"
| "find_rule (r # rs) et req =
     (if et = rule_exchange_type r \<and> req = rule_is_request r
      then (SUCCESS, supported_payloads r)
      else find_rule rs et req)"

definition get_supported_payloads ::
  "'p message \<Rightarrow> status \<times> supported_payload_entry list" where
  "get_supported_payloads m = find_rule message_rules (get_exchange_type m) (get_request m)"

definition set_ike_sa_id ::
  "'p message \<Rightarrow> addr option \<Rightarrow> memory \<Rightarrow> fault + (status \<times> 'p message \<times> memory)" where
  "set_ike_sa_id m arg mem =
     (case arg of
        None \<Rightarrow> Inl NULL_DEREFERENCE
      | Some a \<Rightarrow>
          (case ike_sa_id_clone a mem of
             Inl f \<Rightarrow> Inl f
           | Inr (st, out, mem') \<Rightarrow> Inr (st, m\<lparr>ike_sa_id := out\<rparr>, mem')))"

definition get_ike_sa_id ::
  "'p message \<Rightarrow> memory \<Rightarrow> fault + (status \<times> addr option \<times> 'p message \<times> memory)" where
  "get_ike_sa_id m mem =
     (case ike_sa_id m of
        None \<Rightarrow> Inr (FAILED, None, m, mem)
      | Some a \<Rightarrow>
          (case ike_sa_id_clone a mem of
             Inl f \<Rightarrow> Inl f
           | Inr (st, out, mem') \<Rightarrow> Inr (st, out, m, mem')))"

definition set_message_id :: "'p message \<Rightarrow> 32 word \<Rightarrow> status \<times> 'p message" where
  "set_message_id m mid = (SUCCESS, m\<lparr>message_id := mid\<rparr>)"

definition set_exchange_type :: "'p message \<Rightarrow> exchange_type \<Rightarrow> status \<times> 'p message" where
  "set_exchange_type m et = (SUCCESS, m\<lparr>exchange_type := et\<rparr>)"

definition set_request :: "'p message \<Rightarrow> bool \<Rightarrow> status \<times> 'p message" where
  "set_request m req = (SUCCESS, m\<lparr>is_request := req\<rparr>)"

subsection \<open>\<^verbatim>\<open>add_payload\<close>, \<^verbatim>\<open>set_source\<close>, \<^verbatim>\<open>set_destination\<close> (lines 378--424)\<close>

text \<open>
  Modelled from the spec: \<^verbatim>\<open>utils/linked_list.h\<close> is missing. \<^verbatim>\<open>insert_last\<close> appends, or
  fails with a resource-exhaustion status when the node cannot be allocated.
\<close>

definition insert_last :: "'a list \<Rightarrow> 'a \<Rightarrow> memory \<Rightarrow> status \<times> 'a list \<times> memory" where
  "insert_last xs x mem =
     (case allocate mem of
        (False, mem') \<Rightarrow> (OUT_OF_RES, xs, mem')
      | (True, mem') \<Rightarrow> (SUCCESS, xs @ [x], mem'))"

text \<open>
  \<^verbatim>\<open>get_last\<close> is called only on a chain that is not empty, where it yields the last
  address of the chain as it is before the insertion. The link is written to the object
  at that address; it is the appended object itself when the same payload is added twice
  in a row.
\<close>

definition add_payload ::
  "'p message \<Rightarrow> addr \<Rightarrow> memory \<Rightarrow> status \<times> 'p message \<times> memory" where
  "add_payload m payload mem =
     (case insert_last (payloads m) payload mem of
        (st, xs, mem1) \<Rightarrow>
          if st \<noteq> SUCCESS then (OUT_OF_RES, m, mem1)
          else if length xs = 1
          then (SUCCESS,
                log (m\<lparr>payloads := xs, first_payload := pl_type (payload_cells mem1 payload)\<rparr>)
                  CONTROL_MORE (Added_payload (pl_type (payload_cells mem1 payload))),
                mem1)
          else
            let last_payload = last (payloads m);
                mem2 = mem1\<lparr>payload_cells := (payload_cells mem1)
                         (last_payload := (payload_cells mem1 last_payload)
                            \<lparr>pl_next := pl_type (payload_cells mem1 payload)\<rparr>)\<rparr>
            in (SUCCESS,
                log (m\<lparr>payloads := xs\<rparr>) CONTROL_MORE
                  (Added_payload (pl_type (payload_cells mem2 payload))),
                mem2))"

definition set_source :: "'p message \<Rightarrow> host option \<Rightarrow> status \<times> 'p message" where
  "set_source m h = (SUCCESS, m\<lparr>packet := (packet m)\<lparr>source := h\<rparr>\<rparr>)"

definition set_destination :: "'p message \<Rightarrow> host option \<Rightarrow> status \<times> 'p message" where
  "set_destination m h = (SUCCESS, m\<lparr>packet := (packet m)\<lparr>destination := h\<rparr>\<rparr>)"

subsection \<open>The collaborators\<close>

text \<open>
  Generator, parser, header and payload verification are implemented in files that are
  not part of this development, so the message is modelled over any implementation of
  their interfaces: \<open>'g\<close> is the state of a generator, \<open>'p\<close> the state of a parser.
  \<^item> \<open>ike_header_create\<close> is the header object \<^verbatim>\<open>ike_header_create()\<close> hands out, with its
    default field values.
  \<^item> \<open>generate_payload\<close> appends the encoding of one object to the generator;
    \<open>write_to_chunk\<close> stores the accumulated bytes through the chunk pointer it is given
    (the second component is what the chunk holds afterwards, also when it fails).
  \<^item> \<^verbatim>\<open>parse_payload\<close> is called with type \<open>HEADER\<close> for an \<^verbatim>\<open>ike_header_t\<close> (the cast
    at line 565) and with a payload type for a payload; these are two fields here. The
    object returned is read only when the status is \<open>SUCCESS\<close>.
\<close>

record ('g, 'p) collab =
  ike_header_create :: ike_header
  generator_create :: 'g
  generate_payload :: "'g \<Rightarrow> payload_obj \<Rightarrow> status \<times> 'g"
  write_to_chunk :: "'g \<Rightarrow> status \<times> chunk"
  parser_create :: "chunk \<Rightarrow> 'p"
  reset_context :: "'p \<Rightarrow> 'p"
  parse_header_payload :: "'p \<Rightarrow> status \<times> ike_header \<times> 'p"
  parse_payload :: "'p \<Rightarrow> payload_type \<Rightarrow> status \<times> payload \<times> 'p"
  header_verify :: "ike_header \<Rightarrow> status"
  verify :: "payload \<Rightarrow> status"

subsection \<open>\<^verbatim>\<open>generate\<close> (lines 449--550)\<close>

text \<open>
  What the local \<^verbatim>\<open>payload\<close> of \<^verbatim>\<open>generate\<close> points to: the header object, which is
  local to the call, or a payload of the chain in the store.
\<close>

datatype payload_ref = Header_ref | Payload_ref addr

fun set_next_type_at ::
  "payload_ref \<Rightarrow> payload_type \<Rightarrow> ike_header \<Rightarrow> memory \<Rightarrow> ike_header \<times> memory" where
  "set_next_type_at Header_ref t hdr mem = (hdr\<lparr>hdr_next_payload := t\<rparr>, mem)"
| "set_next_type_at (Payload_ref a) t hdr mem =
     (hdr, mem\<lparr>payload_cells := (payload_cells mem)(a := (payload_cells mem a)\<lparr>pl_next := t\<rparr>)\<rparr>)"

fun object_at :: "payload_ref \<Rightarrow> ike_header \<Rightarrow> memory \<Rightarrow> payload_obj" where
  "object_at Header_ref hdr mem = Header_obj hdr"
| "object_at (Payload_ref a) hdr mem = Payload_obj (payload_cells mem a)"

text \<open>
  The loop of lines 503--515: \<open>payload\<close> is the current object, the list is what the
  iterator has not reached. Each round writes the link of the current object, in the
  header or in the store, and hands the object to the generator.
\<close>

fun generate_loop ::
  "('g, 'p) collab \<Rightarrow> payload_ref \<Rightarrow> addr list \<Rightarrow> ike_header \<Rightarrow> memory \<Rightarrow> 'g \<Rightarrow>
     status \<times> payload_ref \<times> ike_header \<times> memory \<times> 'g" where
  "generate_loop C payload [] hdr mem g = (SUCCESS, payload, hdr, mem, g)"
| "generate_loop C payload (next_payload # rest) hdr mem g =
     (case set_next_type_at payload (pl_type (payload_cells mem next_payload)) hdr mem of
        (hdr1, mem1) \<Rightarrow>
          (case generate_payload C g (object_at payload hdr1 mem1) of
             (st, g1) \<Rightarrow>
               if st \<noteq> SUCCESS then (st, payload, hdr1, mem1, g1)
               else generate_loop C (Payload_ref next_payload) rest hdr1 mem1 g1))"

text \<open>
  \<^verbatim>\<open>packet->clone\<close>: a copy of the packet, when it can be allocated. \<^verbatim>\<open>generate\<close> does not
  look at its status.
\<close>

definition packet_clone :: "packet \<Rightarrow> memory \<Rightarrow> packet option \<times> memory" where
  "packet_clone pk mem =
     (case allocate mem of
        (False, mem') \<Rightarrow> (None, mem')
      | (True, mem') \<Rightarrow> (Some pk, mem'))"

text \<open>The header object after lines 482--487.\<close>

definition generate_header :: "('g, 'p) collab \<Rightarrow> 'p message \<Rightarrow> ike_sa_id \<Rightarrow> ike_header" where
  "generate_header C m sa =
     (ike_header_create C)
       \<lparr>hdr_initiator_spi := initiator_spi sa,
        hdr_responder_spi := responder_spi sa,
        hdr_exchange_type := exchange_type m,
        hdr_initiator_flag := is_initiator sa,
        hdr_response_flag := (\<not> is_request m),
        hdr_message_id := message_id m\<rparr>"

text \<open>Lines 489--549, from the creation of the generator on.\<close>

definition generate_body ::
  "('g, 'p) collab \<Rightarrow> ike_header \<Rightarrow> 'p message \<Rightarrow> memory \<Rightarrow>
     status \<times> packet option \<times> 'p message \<times> memory" where
  "generate_body C hdr m mem =
     (case allocate mem of
        (False, mem1) \<Rightarrow> (OUT_OF_RES, None, m, mem1)
      | (True, mem1) \<Rightarrow>
     (case allocate mem1 of
        (False, mem2) \<Rightarrow> (OUT_OF_RES, None, m, mem2)
      | (True, mem2) \<Rightarrow>
     (case generate_loop C Header_ref (payloads m) hdr mem2 (generator_create C) of
        (st, payload, hdr1, mem3, g) \<Rightarrow>
          if st \<noteq> SUCCESS then (st, None, m, mem3)
          else
            (case set_next_type_at payload NO_PAYLOAD hdr1 mem3 of
               (hdr2, mem4) \<Rightarrow>
                 (case generate_payload C g (object_at payload hdr2 mem4) of
                    (st1, g1) \<Rightarrow>
                      if st1 \<noteq> SUCCESS then (st1, None, m, mem4)
                      else
                        (case write_to_chunk C g1 of
                           (st2, ch) \<Rightarrow>
                             let m2 = m\<lparr>packet := (packet m)\<lparr>data := ch\<rparr>\<rparr> in
                             if st2 \<noteq> SUCCESS then (st2, None, m2, mem4)
                             else
                               (case packet_clone (packet m2) mem4 of
                                  (out, mem5) \<Rightarrow>
                                    (SUCCESS, out, log m2 CONTROL Message_generated,
                                     mem5))))))))"

definition generate ::
  "('g, 'p) collab \<Rightarrow> 'p message \<Rightarrow> memory \<Rightarrow>
     fault + (status \<times> packet option \<times> 'p message \<times> memory)" where
  "generate C m mem =
     (let m0 = log m CONTROL (Generating_message (length (payloads m))) in
      if exchange_type m0 = EXCHANGE_TYPE_UNDEFINED
      then Inr (INVALID_STATE, None, log m0 ERROR Exchange_type_not_defined, mem)
      else if source (packet m0) = None \<or> destination (packet m0) = None
      then Inr (INVALID_STATE, None, log m0 ERROR Source_destination_not_defined, mem)
      else
        (case allocate mem of
           (False, mem1) \<Rightarrow> Inr (OUT_OF_RES, None, m0, mem1)
         | (True, mem1) \<Rightarrow>
             (case ike_sa_id m0 of
                None \<Rightarrow> Inl NULL_DEREFERENCE
              | Some a \<Rightarrow>
                  (case sa_lookup mem1 a of
                     None \<Rightarrow> Inl DANGLING_POINTER
                   | Some sa \<Rightarrow> Inr (generate_body C (generate_header C m0 sa) m0 mem1)))))"

subsection \<open>\<^verbatim>\<open>parse_header\<close> (lines 556--608)\<close>

definition parse_header ::
  "('g, 'p) collab \<Rightarrow> 'p message \<Rightarrow> memory \<Rightarrow> fault + (status \<times> 'p message \<times> memory)" where
  "parse_header C m mem =
     (let m0 = log m CONTROL Parsing_header in
      case parse_header_payload C (reset_context C (parser m0)) of
        (st, ike_header, ps) \<Rightarrow>
          let m1 = m0\<lparr>parser := ps\<rparr> in
          if st \<noteq> SUCCESS then Inr (st, log m1 ERROR Header_not_parsed, mem)
          else
            let st1 = header_verify C ike_header in
            if st1 \<noteq> SUCCESS then Inr (st1, log m1 ERROR Header_verification_failed, mem)
            else
              (case (case ike_sa_id m1 of
                       None \<Rightarrow> Inr mem
                     | Some a \<Rightarrow> ike_sa_id_destroy a mem) of
                 Inl f \<Rightarrow> Inl f
               | Inr mem1 \<Rightarrow>
                   (case ike_sa_id_create (hdr_initiator_spi ike_header)
                           (hdr_responder_spi ike_header) (hdr_initiator_flag ike_header) mem1 of
                      (None, mem2) \<Rightarrow>
                        Inr (OUT_OF_RES, log (m1\<lparr>ike_sa_id := None\<rparr>) ERROR No_ike_sa_id_object,
                             mem2)
                    | (Some b, mem2) \<Rightarrow>
                        Inr (SUCCESS,
                             log (m1\<lparr>ike_sa_id := Some b,
                                     exchange_type := hdr_exchange_type ike_header,
                                     message_id := hdr_message_id ike_header,
                                     is_request := (\<not> hdr_response_flag ike_header),
                                     major_version := hdr_maj_version ike_header,
                                     minor_version := hdr_min_version ike_header,
                                     first_payload := hdr_next_payload ike_header\<rparr>)
                               CONTROL Header_parsed,
                             mem2))))"

subsection \<open>\<^verbatim>\<open>parse_body\<close> (lines 614--740)\<close>

text \<open>The scan of lines 638--645 over the supported payloads.\<close>

fun is_supported :: "supported_payload_entry list \<Rightarrow> payload_type \<Rightarrow> bool" where
  "is_supported [] t = False"
| "is_supported (e # es) t = (if payload_type e = t then True else is_supported es t)"

text \<open>
  The loop of lines 631--679, from a current payload type on. Whether it ends depends on
  the parser, so the result is optional: \<open>None\<close> is the loop that never ends. A payload
  the parser has decoded is an object in the store; its address goes to the chain.
\<close>

partial_function (option) parse_payloads ::
  "('g, 'p) collab \<Rightarrow> supported_payload_entry list \<Rightarrow> payload_type \<Rightarrow> 'p message \<Rightarrow> memory \<Rightarrow>
     (status \<times> 'p message \<times> memory) option" where
  "parse_payloads C entries current_payload_type m mem =
     (if current_payload_type = NO_PAYLOAD then Some (SUCCESS, m, mem)
      else
        let m1 = log m CONTROL_MORE (Start_parsing current_payload_type) in
        if \<not> is_supported entries current_payload_type
        then Some (NOT_SUPPORTED, log m1 ERROR (Type_not_supported current_payload_type), mem)
        else
          (case parse_payload C (parser m1) current_payload_type of
             (st, decoded, ps) \<Rightarrow>
               let m2 = m1\<lparr>parser := ps\<rparr> in
               if st \<noteq> SUCCESS
               then Some (st, log m2 ERROR (Not_parsed current_payload_type), mem)
               else
                 (case new_payload (payloads m2) decoded mem of
                    (current_payload, mem1) \<Rightarrow>
                      if verify C (payload_cells mem1 current_payload) \<noteq> SUCCESS
                      then Some (VERIFY_ERROR,
                                 log m2 ERROR (Not_verified current_payload_type), mem1)
                      else
                        (case insert_last (payloads m2) current_payload mem1 of
                           (st1, xs, mem2) \<Rightarrow>
                             if st1 \<noteq> SUCCESS
                             then Some (st1, log (m2\<lparr>payloads := xs\<rparr>) ERROR Not_inserted,
                                        mem2)
                             else parse_payloads C entries
                                    (pl_next (payload_cells mem1 current_payload))
                                    (m2\<lparr>payloads := xs\<rparr>) mem2))))"

declare parse_payloads.simps [code]

text \<open>
  The inner loop of lines 705--727 for one rule, over the addresses of the chain:
  \<open>found\<close> is \<^verbatim>\<open>found_payloads\<close>. It stops with \<open>NOT_SUPPORTED\<close> at the element that
  takes the count above the maximum.
\<close>

fun count_payloads ::
  "memory \<Rightarrow> payload_type \<Rightarrow> nat \<Rightarrow> addr list \<Rightarrow> nat \<Rightarrow> status \<times> nat" where
  "count_payloads mem t max_occ [] found = (SUCCESS, found)"
| "count_payloads mem t max_occ (current_payload # rest) found =
     (if pl_type (payload_cells mem current_payload) = t
      then (if Suc found > max_occ then (NOT_SUPPORTED, Suc found)
            else count_payloads mem t max_occ rest (Suc found))
      else count_payloads mem t max_occ rest found)"

text \<open>The loop of lines 696--736 over the rule's entries.\<close>

fun check_occurences ::
  "supported_payload_entry list \<Rightarrow> 'p message \<Rightarrow> memory \<Rightarrow> status \<times> 'p message" where
  "check_occurences [] m mem = (SUCCESS, m)"
| "check_occurences (e # es) m mem =
     (case count_payloads mem (payload_type e) (max_occurence e) (payloads m) 0 of
        (st, found) \<Rightarrow>
          if st \<noteq> SUCCESS
          then (NOT_SUPPORTED, log m ERROR (Too_many (payload_type e) (max_occurence e) found))
          else if found < min_occurence e
          then (NOT_SUPPORTED, log m ERROR (Too_few (payload_type e) (min_occurence e)))
          else check_occurences es m mem)"

definition parse_body ::
  "('g, 'p) collab \<Rightarrow> 'p message \<Rightarrow> memory \<Rightarrow> (status \<times> 'p message \<times> memory) option" where
  "parse_body C m mem =
     (let m0 = log m CONTROL Parsing_body in
      case get_supported_payloads m0 of
        (st, entries) \<Rightarrow>
          if st \<noteq> SUCCESS then Some (FAILED, log m0 ERROR No_supported_payloads, mem)
          else
            (case parse_payloads C entries (first_payload m0) m0 mem of
               None \<Rightarrow> None
             | Some (st1, m1, mem1) \<Rightarrow>
                 if st1 \<noteq> SUCCESS then Some (st1, m1, mem1)
                 else
                   (case allocate mem1 of
                      (False, mem2) \<Rightarrow> Some (OUT_OF_RES, log m1 ERROR No_iterator, mem2)
                    | (True, mem2) \<Rightarrow>
                        (case check_occurences entries m1 mem2 of
                           (st2, m2) \<Rightarrow> Some (st2, m2, mem2)))))"

subsection \<open>\<^verbatim>\<open>message_create_from_packet\<close> (lines 780--867)\<close>

text \<open>
  The two version fields are not initialised by the constructor: they hold what the
  allocated memory held, the arguments \<open>raw_major\<close> and \<open>raw_minor\<close>. The five
  allocations are the object, the packet (when none is given), the list, the parser and
  the logger.
\<close>

definition message_create_from_packet ::
  "('g, 'p) collab \<Rightarrow> byte \<Rightarrow> byte \<Rightarrow> packet option \<Rightarrow> memory \<Rightarrow> 'p message option \<times> memory" where
  "message_create_from_packet C raw_major raw_minor arg mem =
     (case allocate mem of
        (False, mem1) \<Rightarrow> (None, mem1)
      | (True, mem1) \<Rightarrow>
     (case (case arg of
              Some pk \<Rightarrow> (Some pk, mem1)
            | None \<Rightarrow> packet_clone \<lparr>source = None, destination = None, data = None\<rparr> mem1) of
        (None, mem2) \<Rightarrow> (None, mem2)
      | (Some pk, mem2) \<Rightarrow>
     (case allocate mem2 of
        (False, mem3) \<Rightarrow> (None, mem3)
      | (True, mem3) \<Rightarrow>
     (case allocate mem3 of
        (False, mem4) \<Rightarrow> (None, mem4)
      | (True, mem4) \<Rightarrow>
     (case allocate mem4 of
        (False, mem5) \<Rightarrow> (None, mem5)
      | (True, mem5) \<Rightarrow>
          (Some \<lparr>major_version = raw_major, minor_version = raw_minor,
                 first_payload = NO_PAYLOAD, exchange_type = EXCHANGE_TYPE_UNDEFINED,
                 is_request = True, message_id = 0, ike_sa_id = None, packet = pk,
                 payloads = [], parser = parser_create C (data pk), logger = []\<rparr>,
           mem5))))))"

definition message_create ::
  "('g, 'p) collab \<Rightarrow> byte \<Rightarrow> byte \<Rightarrow> memory \<Rightarrow> 'p message option \<times> memory" where
  "message_create C raw_major raw_minor mem =
     message_create_from_packet C raw_major raw_minor None mem"

subsection \<open>A wire format for the collaborators\<close>

text \<open>
  Modelled from the spec: \<^verbatim>\<open>generator.c\<close>, \<^verbatim>\<open>parser.c\<close>, \<^verbatim>\<open>payloads/ike_header.c\<close> and
  the payload implementations are missing. This is one implementation of their interfaces,
  after the wire format of the external interfaces: a fixed header of 28 bytes (initiator
  SPI, responder SPI, next payload, version, exchange type, flags, message id, total
  length), then each payload with a generic header (next payload, a reserved byte, a
  length of two bytes) before its content. It serves as the concrete instance at which
  the general statements below are evaluated.
\<close>

definition payload_type_code :: "payload_type \<Rightarrow> nat" where
  "payload_type_code t =
     (case t of
        NO_PAYLOAD \<Rightarrow> 0
      | SECURITY_ASSOCIATION \<Rightarrow> 33
      | KEY_EXCHANGE \<Rightarrow> 34
      | NONCE \<Rightarrow> 40
      | HEADER \<Rightarrow> 140
      | PAYLOAD_TYPE_OTHER n \<Rightarrow> n)"

definition payload_type_of_code :: "nat \<Rightarrow> payload_type" where
  "payload_type_of_code n =
     (if n = 0 then NO_PAYLOAD
      else if n = 33 then SECURITY_ASSOCIATION
      else if n = 34 then KEY_EXCHANGE
      else if n = 40 then NONCE
      else if n = 140 then HEADER
      else PAYLOAD_TYPE_OTHER n)"

definition exchange_type_code :: "exchange_type \<Rightarrow> nat" where
  "exchange_type_code t =
     (case t of
        EXCHANGE_TYPE_UNDEFINED \<Rightarrow> 240
      | IKE_SA_INIT \<Rightarrow> 34
      | EXCHANGE_TYPE_OTHER n \<Rightarrow> n)"

definition exchange_type_of_code :: "nat \<Rightarrow> exchange_type" where
  "exchange_type_of_code n =
     (if n = 240 then EXCHANGE_TYPE_UNDEFINED
      else if n = 34 then IKE_SA_INIT
      else EXCHANGE_TYPE_OTHER n)"

text \<open>Big-endian bytes of a number, and back.\<close>

fun be_bytes :: "nat \<Rightarrow> nat \<Rightarrow> byte list" where
  "be_bytes 0 n = []"
| "be_bytes (Suc k) n = be_bytes k (n div 256) @ [of_nat (n mod 256)]"

fun be_nat :: "nat \<Rightarrow> byte list \<Rightarrow> nat" where
  "be_nat acc [] = acc"
| "be_nat acc (b # bs) = be_nat (acc * 256 + unat b) bs"

definition header_bytes :: "ike_header \<Rightarrow> byte list" where
  "header_bytes h =
     be_bytes 8 (unat (hdr_initiator_spi h)) @ be_bytes 8 (unat (hdr_responder_spi h)) @
     [of_nat (payload_type_code (hdr_next_payload h)),
      of_nat (unat (hdr_maj_version h) mod 16 * 16 + unat (hdr_min_version h) mod 16),
      of_nat (exchange_type_code (hdr_exchange_type h)),
      of_nat ((if hdr_initiator_flag h then 8 else 0) + (if hdr_response_flag h then 32 else 0))] @
     be_bytes 4 (unat (hdr_message_id h)) @ be_bytes 4 0"

definition wire_generate_payload :: "byte list \<Rightarrow> payload_obj \<Rightarrow> status \<times> byte list" where
  "wire_generate_payload g obj =
     (case obj of
        Header_obj h \<Rightarrow>
          if payload_type_code (hdr_next_payload h) < 256 \<and>
             exchange_type_code (hdr_exchange_type h) < 256
          then (SUCCESS, g @ header_bytes h)
          else (FAILED, g)
      | Payload_obj p \<Rightarrow>
          if payload_type_code (pl_next p) < 256 \<and> length (pl_body p) + 4 < 65536
          then (SUCCESS,
                g @ [of_nat (payload_type_code (pl_next p)), 0] @
                  be_bytes 2 (length (pl_body p) + 4) @ pl_body p)
          else (FAILED, g))"

definition wire_write_to_chunk :: "byte list \<Rightarrow> status \<times> chunk" where
  "wire_write_to_chunk g =
     (if length g < 28 then (FAILED, None)
      else (SUCCESS, Some (take 24 g @ be_bytes 4 (length g) @ drop 28 g)))"

record wire_parser =
  wp_input :: "byte list"
  wp_pos :: nat

definition wire_parser_create :: "chunk \<Rightarrow> wire_parser" where
  "wire_parser_create ch = \<lparr>wp_input = (case ch of None \<Rightarrow> [] | Some bs \<Rightarrow> bs), wp_pos = 0\<rparr>"

definition wire_reset_context :: "wire_parser \<Rightarrow> wire_parser" where
  "wire_reset_context s = s\<lparr>wp_pos := 0\<rparr>"

definition default_header :: ike_header where
  "default_header =
     \<lparr>hdr_initiator_spi = 0, hdr_responder_spi = 0, hdr_next_payload = NO_PAYLOAD,
      hdr_maj_version = 2, hdr_min_version = 0, hdr_exchange_type = EXCHANGE_TYPE_UNDEFINED,
      hdr_initiator_flag = False, hdr_response_flag = False, hdr_message_id = 0\<rparr>"

definition wire_parse_header :: "wire_parser \<Rightarrow> status \<times> ike_header \<times> wire_parser" where
  "wire_parse_header s =
     (let bs = drop (wp_pos s) (wp_input s) in
      if length bs < 28 then (PARSE_ERROR, default_header, s)
      else
        (SUCCESS,
         \<lparr>hdr_initiator_spi = of_nat (be_nat 0 (take 8 bs)),
          hdr_responder_spi = of_nat (be_nat 0 (take 8 (drop 8 bs))),
          hdr_next_payload = payload_type_of_code (unat (bs ! 16)),
          hdr_maj_version = of_nat (unat (bs ! 17) div 16),
          hdr_min_version = of_nat (unat (bs ! 17) mod 16),
          hdr_exchange_type = exchange_type_of_code (unat (bs ! 18)),
          hdr_initiator_flag = (unat (bs ! 19) div 8 mod 2 = 1),
          hdr_response_flag = (unat (bs ! 19) div 32 mod 2 = 1),
          hdr_message_id = of_nat (be_nat 0 (take 4 (drop 20 bs)))\<rparr>,
         s\<lparr>wp_pos := wp_pos s + 28\<rparr>))"

definition wire_parse_payload ::
  "wire_parser \<Rightarrow> payload_type \<Rightarrow> status \<times> payload \<times> wire_parser" where
  "wire_parse_payload s t =
     (let bs = drop (wp_pos s) (wp_input s);
          none = \<lparr>pl_type = t, pl_next = NO_PAYLOAD, pl_body = []\<rparr> in
      if length bs < 4 then (PARSE_ERROR, none, s)
      else
        let len = be_nat 0 (take 2 (drop 2 bs)) in
        if len < 4 \<or> length bs < len then (PARSE_ERROR, none, s)
        else
          (SUCCESS,
           \<lparr>pl_type = t, pl_next = payload_type_of_code (unat (bs ! 0)),
            pl_body = take (len - 4) (drop 4 bs)\<rparr>,
           s\<lparr>wp_pos := wp_pos s + len\<rparr>))"

definition wire_header_verify :: "ike_header \<Rightarrow> status" where
  "wire_header_verify h = (if hdr_maj_version h = 2 then SUCCESS else VERIFY_ERROR)"

definition wire_collab :: "(byte list, wire_parser) collab" where
  "wire_collab =
     \<lparr>ike_header_create = default_header,
      generator_create = [],
      generate_payload = wire_generate_payload,
      write_to_chunk = wire_write_to_chunk,
      parser_create = wire_parser_create,
      reset_context = wire_reset_context,
      parse_header_payload = wire_parse_header,
      parse_payload = wire_parse_payload,
      header_verify = wire_header_verify,
      verify = (\<lambda>p. SUCCESS)\<rparr>"

subsection \<open>Concrete stores and messages\<close>

text \<open>
  A payload store given by the list of the objects at the addresses \<open>0\<close>, \<open>1\<close>, ...;
  the addresses beyond hold an empty object.
\<close>

definition payload_store :: "payload list \<Rightarrow> addr \<Rightarrow> payload" where
  "payload_store ps a =
     (if a < length ps then ps ! a
      else \<lparr>pl_type = NO_PAYLOAD, pl_next = NO_PAYLOAD, pl_body = []\<rparr>)"

definition empty_memory :: memory where
  "empty_memory =
     \<lparr>sa_cells = [], payload_cells = payload_store [], payload_count = 0, alloc_plan = []\<rparr>"

definition sa_1 :: ike_sa_id where
  "sa_1 = \<lparr>initiator_spi = 4660, responder_spi = 0, is_initiator = True\<rparr>"

text \<open>A store holding one IKE SA identifier, at address 0.\<close>

definition memory_1 :: memory where
  "memory_1 =
     \<lparr>sa_cells = [Some sa_1], payload_cells = payload_store [], payload_count = 0,
      alloc_plan = []\<rparr>"

text \<open>The message as the constructor leaves it, for an empty packet.\<close>

definition new_message :: "wire_parser message" where
  "new_message =
     \<lparr>major_version = 0, minor_version = 0, first_payload = NO_PAYLOAD,
      exchange_type = EXCHANGE_TYPE_UNDEFINED, is_request = True, message_id = 0,
      ike_sa_id = None, packet = \<lparr>source = None, destination = None, data = None\<rparr>,
      payloads = [], parser = wire_parser_create None, logger = []\<rparr>"

definition host_a :: host where
  "host_a = Host [192, 168, 0, 1] 500"

definition host_b :: host where
  "host_b = Host [192, 168, 0, 2] 500"

definition sa_payload :: payload where
  "sa_payload = \<lparr>pl_type = SECURITY_ASSOCIATION, pl_next = NO_PAYLOAD, pl_body = [1, 2, 3]\<rparr>"

definition ke_payload :: payload where
  "ke_payload = \<lparr>pl_type = KEY_EXCHANGE, pl_next = NO_PAYLOAD, pl_body = [4, 5]\<rparr>"

definition nonce_payload :: payload where
  "nonce_payload = \<lparr>pl_type = NONCE, pl_next = NO_PAYLOAD, pl_body = [6, 7, 8, 9]\<rparr>"

text \<open>
  The store of a sender: the IKE SA identifier, and three payload objects at the
  addresses 0, 1 and 2. The nonce payload carries a link left over from an earlier use.
\<close>

definition sender_memory :: memory where
  "sender_memory =
     \<lparr>sa_cells = [Some sa_1],
      payload_cells =
        payload_store [sa_payload, ke_payload, nonce_payload\<lparr>pl_next := KEY_EXCHANGE\<rparr>],
      payload_count = 3, alloc_plan = []\<rparr>"

text \<open>A message ready for generation but for its ike-sa-id, which was never set.\<close>

definition addressed_message :: "wire_parser message" where
  "addressed_message =
     new_message\<lparr>exchange_type := IKE_SA_INIT,
       packet := \<lparr>source = Some host_a, destination = Some host_b, data = None\<rparr>\<rparr>"



definition received_message :: "byte list \<Rightarrow> wire_parser message" where
  "received_message bs =
     new_message\<lparr>packet := \<lparr>source = Some host_b, destination = Some host_a, data = Some bs\<rparr>,
                 parser := wire_parser_create (Some bs)\<rparr>"

text \<open>
  An \<open>IKE_SA_INIT\<close> request under construction: exchange type, message id, addresses and
  ike-sa-id are set, the chain is empty. Then the message after the payloads at 0, 1 and
  2 have been added in the sender's store, the store after that, the bytes generated,
  the packet handed out, and message and store after generation.
\<close>

definition request_start :: "wire_parser message" where
  "request_start = addressed_message\<lparr>message_id := 7, ike_sa_id := Some 0\<rparr>"

definition request_message :: "wire_parser message" where
  "request_message =
     request_start
       \<lparr>first_payload := SECURITY_ASSOCIATION, payloads := [0, 1, 2],
        logger := [(CONTROL_MORE, Added_payload SECURITY_ASSOCIATION),
                   (CONTROL_MORE, Added_payload KEY_EXCHANGE),
                   (CONTROL_MORE, Added_payload NONCE)]\<rparr>"

definition request_memory :: memory where
  "request_memory =
     sender_memory
       \<lparr>payload_cells :=
          payload_store [sa_payload\<lparr>pl_next := KEY_EXCHANGE\<rparr>, ke_payload\<lparr>pl_next := NONCE\<rparr>,
                         nonce_payload\<lparr>pl_next := KEY_EXCHANGE\<rparr>]\<rparr>"

definition request_bytes :: "byte list" where
  "request_bytes =
     [0, 0, 0, 0, 0, 0, 18, 52, 0, 0, 0, 0, 0, 0, 0, 0, 33, 32, 34, 8, 0, 0, 0, 7, 0, 0, 0, 49,
      34, 0, 0, 7, 1, 2, 3,
      40, 0, 0, 6, 4, 5,
      0, 0, 0, 8, 6, 7, 8, 9]"

definition request_packet :: packet where
  "request_packet = \<lparr>source = Some host_a, destination = Some host_b, data = Some request_bytes\<rparr>"

definition generated_message :: "wire_parser message" where
  "generated_message =
     request_message
       \<lparr>packet := request_packet,
        logger := logger request_message @
          [(CONTROL, Generating_message 3), (CONTROL, Message_generated)]\<rparr>"

definition generated_memory :: memory where
  "generated_memory =
     sender_memory
       \<lparr>payload_cells :=
          payload_store [sa_payload\<lparr>pl_next := KEY_EXCHANGE\<rparr>, ke_payload\<lparr>pl_next := NONCE\<rparr>,
                         nonce_payload]\<rparr>"

text \<open>
  Received bytes for \<open>IKE_SA_INIT\<close> requests: the header (announcing a first payload
  type and a total length) and the three kinds of payload, each with its link.
\<close>

definition init_header :: "byte \<Rightarrow> byte \<Rightarrow> byte list" where
  "init_header nxt len =
     [0, 0, 0, 0, 0, 0, 18, 52, 0, 0, 0, 0, 0, 0, 0, 0, nxt, 32, 34, 8, 0, 0, 0, 7,
      0, 0, 0, len]"

definition sa_bytes :: "byte \<Rightarrow> byte list" where
  "sa_bytes nxt = [nxt, 0, 0, 7, 1, 2, 3]"

definition ke_bytes :: "byte \<Rightarrow> byte list" where
  "ke_bytes nxt = [nxt, 0, 0, 6, 4, 5]"

definition nonce_bytes :: "byte \<Rightarrow> byte list" where
  "nonce_bytes nxt = [nxt, 0, 0, 8, 6, 7, 8, 9]"

text \<open>
  The message after \<^verbatim>\<open>parse_header\<close> has succeeded on such bytes, in a store that was
  empty: the header fields are recorded, the parser stands behind the header, and the
  ike-sa-id is the object created at address 0 (the store is then \<open>memory_1\<close>).
\<close>

definition header_parsed :: "byte list \<Rightarrow> payload_type \<Rightarrow> wire_parser message" where
  "header_parsed bs t =
     (received_message bs)
       \<lparr>major_version := 2, minor_version := 0, first_payload := t,
        exchange_type := IKE_SA_INIT, is_request := True, message_id := 7,
        ike_sa_id := Some 0, parser := \<lparr>wp_input = bs, wp_pos = 28\<rparr>,
        logger := [(CONTROL, Parsing_header), (CONTROL, Header_parsed)]\<rparr>"

definition two_nonce_bytes :: "byte list" where
  "two_nonce_bytes = init_header 40 44 @ nonce_bytes 40 @ nonce_bytes 0"

definition no_ke_bytes :: "byte list" where
  "no_ke_bytes = init_header 33 43 @ sa_bytes 40 @ nonce_bytes 0"

definition two_sa_bytes :: "byte list" where
  "two_sa_bytes = init_header 33 50 @ sa_bytes 33 @ sa_bytes 40 @ nonce_bytes 0"

definition ke_nonce_bytes :: "byte list" where
  "ke_nonce_bytes = init_header 34 42 @ ke_bytes 40 @ nonce_bytes 0"

definition extra_nonce_bytes :: "byte list" where
  "extra_nonce_bytes =
     init_header 33 57 @ sa_bytes 34 @ ke_bytes 40 @ nonce_bytes 40 @ nonce_bytes 0"

subsection \<open>Notions used in the statements\<close>

text \<open>The chain of a message as its iterator sees it: the objects at its addresses.\<close>

definition chain_payloads :: "memory \<Rightarrow> 'p message \<Rightarrow> payload list" where
  "chain_payloads mem m = map (payload_cells mem) (payloads m)"

text \<open>
  The linkage of a chain: each payload's next-type is the type of its successor, and the
  next-type of the last payload is \<open>NO_PAYLOAD\<close>. \<open>pairs_linked\<close> is the first half
  alone, for a chain that is still being built.
\<close>

fun chain_linked :: "payload list \<Rightarrow> bool" where
  "chain_linked [] = True"
| "chain_linked [p] = (pl_next p = NO_PAYLOAD)"
| "chain_linked (p # q # ps) = (pl_next p = pl_type q \<and> chain_linked (q # ps))"

fun pairs_linked :: "payload list \<Rightarrow> bool" where
  "pairs_linked (p # q # ps) = (pl_next p = pl_type q \<and> pairs_linked (q # ps))"
| "pairs_linked ps = True"

text \<open>
  A chain with every link rewritten, and the objects of a traversal from a current
  object on, each with the link it is serialized with.
\<close>

fun relink :: "payload list \<Rightarrow> payload list" where
  "relink [] = []"
| "relink [p] = [p\<lparr>pl_next := NO_PAYLOAD\<rparr>]"
| "relink (p # q # ps) = p\<lparr>pl_next := pl_type q\<rparr> # relink (q # ps)"

fun relink_from :: "payload_obj \<Rightarrow> payload list \<Rightarrow> payload_obj list" where
  "relink_from cur [] = [set_next_type cur NO_PAYLOAD]"
| "relink_from cur (q # ps) = set_next_type cur (pl_type q) # relink_from (Payload_obj q) ps"

text \<open>Feeding a list of objects to a generator, one call after the other.\<close>

fun generate_all :: "('g, 'p) collab \<Rightarrow> 'g \<Rightarrow> payload_obj list \<Rightarrow> status \<times> 'g" where
  "generate_all C g [] = (SUCCESS, g)"
| "generate_all C g (obj # objs) =
     (case generate_payload C g obj of
        (st, g') \<Rightarrow> if st \<noteq> SUCCESS then (st, g') else generate_all C g' objs)"

text \<open>How often a payload type occurs in a chain, and a chain within the bounds of a rule.\<close>

definition occurrences :: "payload_type \<Rightarrow> payload list \<Rightarrow> nat" where
  "occurrences t ps = length (filter (\<lambda>p. pl_type p = t) ps)"

definition within_bounds :: "supported_payload_entry list \<Rightarrow> payload list \<Rightarrow> bool" where
  "within_bounds entries ps =
     list_all (\<lambda>e. min_occurence e \<le> occurrences (payload_type e) ps \<and>
                    occurrences (payload_type e) ps \<le> max_occurence e) entries"

text \<open>
  What a body holds for a rule, from a parser state and a current type on: the payloads
  \<open>ps\<close> decode one after the other, each asked for under a type the rule supports,
  each passing its verification and each announcing the type to ask for next; then the
  decoding stops with the status \<open>st\<close>. It stops with \<open>SUCCESS\<close> when the last link is
  \<open>NO_PAYLOAD\<close>, with \<open>NOT_SUPPORTED\<close> at a type the rule does not have, with the parser's
  status at a payload that does not decode, and with \<open>VERIFY_ERROR\<close> at one that does not
  verify.
\<close>

fun decodes ::
  "('g, 'p) collab \<Rightarrow> supported_payload_entry list \<Rightarrow> 'p \<Rightarrow> payload_type \<Rightarrow> payload list \<Rightarrow>
     status \<Rightarrow> bool" where
  "decodes C entries s t [] st =
     (if t = NO_PAYLOAD then st = SUCCESS
      else if \<not> is_supported entries t then st = NOT_SUPPORTED
      else
        (case parse_payload C s t of
           (pst, p, s') \<Rightarrow>
             if pst \<noteq> SUCCESS then st = pst
             else verify C p \<noteq> SUCCESS \<and> st = VERIFY_ERROR))"
| "decodes C entries s t (p # ps) st =
     (t \<noteq> NO_PAYLOAD \<and> is_supported entries t \<and>
      (case parse_payload C s t of
         (pst, q, s') \<Rightarrow>
           pst = SUCCESS \<and> q = p \<and> verify C p = SUCCESS \<and>
           decodes C entries s' (pl_next p) ps st))"

text \<open>
  Of the next \<open>n\<close> allocation requests, the number that succeed before the first one
  that fails: \<open>n\<close> itself when none of them fails.
\<close>

fun granted :: "nat \<Rightarrow> bool list \<Rightarrow> nat" where
  "granted 0 plan = 0"
| "granted (Suc n) [] = Suc n"
| "granted (Suc n) (True # plan) = Suc (granted n plan)"
| "granted (Suc n) (False # plan) = 0"

text \<open>
  The nonce payload at address 2 added twice to the request under construction: the
  message after the first and after the second call, the store then, and message, store
  and packet after generation.
\<close>

definition once_message :: "wire_parser message" where
  "once_message =
     request_start
       \<lparr>first_payload := NONCE, payloads := [2],
        logger := [(CONTROL_MORE, Added_payload NONCE)]\<rparr>"

definition twice_message :: "wire_parser message" where
  "twice_message =
     request_start
       \<lparr>first_payload := NONCE, payloads := [2, 2],
        logger := [(CONTROL_MORE, Added_payload NONCE), (CONTROL_MORE, Added_payload NONCE)]\<rparr>"

definition twice_memory :: memory where
  "twice_memory =
     sender_memory
       \<lparr>payload_cells :=
          payload_store [sa_payload, ke_payload, nonce_payload\<lparr>pl_next := NONCE\<rparr>]\<rparr>"

definition twice_packet :: packet where
  "twice_packet =
     \<lparr>source = Some host_a, destination = Some host_b, data = Some two_nonce_bytes\<rparr>"

definition twice_generated :: "wire_parser message" where
  "twice_generated =
     twice_message
       \<lparr>packet := twice_packet,
        logger := logger twice_message @
          [(CONTROL, Generating_message 2), (CONTROL, Message_generated)]\<rparr>"

definition twice_generated_memory :: memory where
  "twice_generated_memory =
     sender_memory\<lparr>payload_cells := payload_store [sa_payload, ke_payload, nonce_payload]\<rparr>"

text \<open>
  Two stores that differ in next-type links at most (and in the allocation plan): the
  IKE SA identifiers are the same, and every payload object has its type and its content.
\<close>

definition same_objects :: "memory \<Rightarrow> memory \<Rightarrow> bool" where
  "same_objects mem mem' =
     (sa_cells mem' = sa_cells mem \<and> payload_count mem' = payload_count mem \<and>
      (\<forall>a. pl_type (payload_cells mem' a) = pl_type (payload_cells mem a) \<and>
           pl_body (payload_cells mem' a) = pl_body (payload_cells mem a)))"

text \<open>The texts of the error lines a message has logged.\<close>

definition error_lines :: "'p message \<Rightarrow> log_text list" where
  "error_lines m = map snd (filter (\<lambda>l. fst l = ERROR) (logger m))"

section \<open>Properties\<close>

subsection \<open>Rules, store and allocation\<close>

lemma find_rule_message_rules:
  "find_rule message_rules et req =
     (if et = IKE_SA_INIT then (SUCCESS, supported_ike_sa_init_i_payloads) else (NOT_FOUND, []))"
  by (cases req) (simp_all add: message_rules_def supported_ike_sa_init_i_payloads_def supported_ike_sa_init_r_payloads_def)

lemma allocate_cells [simp]: "sa_cells (snd (allocate mem)) = sa_cells mem"
  by (simp add: allocate_def split: list.splits)

lemma sa_lookup_allocate [simp]: "sa_lookup (snd (allocate mem)) a = sa_lookup mem a"
  by (simp add: sa_lookup_def)

lemma ike_sa_id_create_ok:
  "fst (allocate mem) \<Longrightarrow>
   ike_sa_id_create i r f mem =
     (Some (length (sa_cells mem)),
      (snd (allocate mem))\<lparr>sa_cells := sa_cells mem @
         [Some \<lparr>initiator_spi = i, responder_spi = r, is_initiator = f\<rparr>]\<rparr>)"
  by (simp add: ike_sa_id_create_def allocate_def split: list.splits)

lemma ike_sa_id_create_fail:
  "\<not> fst (allocate mem) \<Longrightarrow> ike_sa_id_create i r f mem = (None, snd (allocate mem))"
  by (simp add: ike_sa_id_create_def allocate_def split: list.splits)

lemma ike_sa_id_clone_ok:
  "sa_lookup mem a = Some sa \<Longrightarrow> fst (allocate mem) \<Longrightarrow>
   ike_sa_id_clone a mem =
     Inr (SUCCESS, Some (length (sa_cells mem)),
          (snd (allocate mem))\<lparr>sa_cells := sa_cells mem @ [Some sa]\<rparr>)"
  by (simp add: ike_sa_id_clone_def ike_sa_id_create_ok)

lemma ike_sa_id_clone_fail:
  "sa_lookup mem a = Some sa \<Longrightarrow> \<not> fst (allocate mem) \<Longrightarrow>
   ike_sa_id_clone a mem = Inr (OUT_OF_RES, None, snd (allocate mem))"
  by (simp add: ike_sa_id_clone_def ike_sa_id_create_fail)

lemma sa_lookup_append:
  "sa_lookup mem a = Some sa \<Longrightarrow>
   sa_lookup (mem'\<lparr>sa_cells := sa_cells mem @ [x]\<rparr>) a = Some sa \<and> a \<noteq> length (sa_cells mem)"
  by (auto simp: sa_lookup_def nth_append split: if_splits)

text \<open>
  Claim C8, as the code has it. A message whose ike-sa-id is NULL answers
  \<^verbatim>\<open>get_ike_sa_id\<close> with the status \<open>FAILED\<close> (line 271; not \<open>NOT_FOUND\<close>), and neither
  the message nor the store changes. When the ike-sa-id is set and live, the caller gets
  what \<^verbatim>\<open>clone\<close> produces: if the copy can be allocated, a new object at an address other
  than the live one, not allocated before, holding the same SPIs and initiator flag; if
  not, \<open>OUT_OF_RES\<close> and no object. The live instance and the message stay as they were.
\<close>

theorem get_ike_sa_id_failed_or_copy:
  "(ike_sa_id m = None \<longrightarrow> get_ike_sa_id m mem = Inr (FAILED, None, m, mem)) \<and>
   (ike_sa_id m = Some a \<and> sa_lookup mem a = Some sa \<longrightarrow>
      (\<exists>st out mem'. get_ike_sa_id m mem = Inr (st, out, m, mem') \<and>
         sa_lookup mem' a = Some sa \<and>
         (if fst (allocate mem)
          then st = SUCCESS \<and>
            (\<exists>b. out = Some b \<and> b \<noteq> a \<and> sa_lookup mem b = None \<and> sa_lookup mem' b = Some sa)
          else st = OUT_OF_RES \<and> out = None)))"
proof (intro conjI impI)
  assume "ike_sa_id m = None"
  then show "get_ike_sa_id m mem = Inr (FAILED, None, m, mem)"
    by (simp add: get_ike_sa_id_def)
next
  assume h: "ike_sa_id m = Some a \<and> sa_lookup mem a = Some sa"
  show "\<exists>st out mem'. get_ike_sa_id m mem = Inr (st, out, m, mem') \<and>
         sa_lookup mem' a = Some sa \<and>
         (if fst (allocate mem)
          then st = SUCCESS \<and>
            (\<exists>b. out = Some b \<and> b \<noteq> a \<and> sa_lookup mem b = None \<and> sa_lookup mem' b = Some sa)
          else st = OUT_OF_RES \<and> out = None)"
  proof (cases "fst (allocate mem)")
    case True
    let ?mem' = "(snd (allocate mem))\<lparr>sa_cells := sa_cells mem @ [Some sa]\<rparr>"
    from h True have "get_ike_sa_id m mem = Inr (SUCCESS, Some (length (sa_cells mem)), m, ?mem')"
      by (simp add: get_ike_sa_id_def ike_sa_id_clone_ok)
    moreover from h have "sa_lookup ?mem' a = Some sa" "a \<noteq> length (sa_cells mem)"
      using sa_lookup_append [where mem = mem and a = a and sa = sa and mem' = "snd (allocate mem)" and x = "Some sa"] by simp_all
    moreover have "sa_lookup mem (length (sa_cells mem)) = None"
      "sa_lookup ?mem' (length (sa_cells mem)) = Some sa"
      by (simp_all add: sa_lookup_def)
    ultimately show ?thesis using True by auto
  next
    case False
    with h have "get_ike_sa_id m mem = Inr (OUT_OF_RES, None, m, snd (allocate mem))"
      by (simp add: get_ike_sa_id_def ike_sa_id_clone_fail)
    with h False show ?thesis by simp
  qed
qed

text \<open>
  Claim C8 as stated fails: on the message the constructor returns, whose ike-sa-id was
  never set, the status is \<open>FAILED\<close>, not \<open>NOT_FOUND\<close>.
\<close>

theorem get_ike_sa_id_not_found_counterexample:
  "ike_sa_id new_message = None \<and>
   get_ike_sa_id new_message empty_memory = Inr (FAILED, None, new_message, empty_memory) \<and>
   get_ike_sa_id new_message empty_memory \<noteq> Inr (NOT_FOUND, None, new_message, empty_memory)"
  by (simp add: get_ike_sa_id_def new_message_def)

theorem get_ike_sa_id_failed_or_copy_witness:
  "ike_sa_id (new_message\<lparr>ike_sa_id := Some 0\<rparr>) = Some 0 \<and> sa_lookup memory_1 0 = Some sa_1 \<and>
   get_ike_sa_id (new_message\<lparr>ike_sa_id := Some 0\<rparr>) memory_1 =
     Inr (SUCCESS, Some 1, new_message\<lparr>ike_sa_id := Some 0\<rparr>,
          memory_1\<lparr>sa_cells := [Some sa_1, Some sa_1]\<rparr>)"
  using get_ike_sa_id_failed_or_copy [of "new_message\<lparr>ike_sa_id := Some 0\<rparr>" memory_1 0 sa_1]
  by (simp add: get_ike_sa_id_def ike_sa_id_clone_def ike_sa_id_create_def sa_lookup_def allocate_def memory_1_def sa_1_def)

lemma get_supported_payloads_result:
  "get_supported_payloads m =
     (if exchange_type m = IKE_SA_INIT then (SUCCESS, supported_ike_sa_init_i_payloads)
      else (NOT_FOUND, []))"
  by (simp add: get_supported_payloads_def get_exchange_type_def find_rule_message_rules)

subsection \<open>Body parsing without a rule\<close>

text \<open>
  Claim C2, as the code has it. The rule table has an entry for \<open>IKE_SA_INIT\<close> in both
  directions and for nothing else. For every other exchange type the lookup answers
  \<open>NOT_FOUND\<close>, and \<^verbatim>\<open>parse_body\<close> turns that into the status \<open>FAILED\<close> (line 628)
  before the parser is called: the message is as before but for two log lines, so its
  chain is the chain it had (empty for a new message) and the parser has not moved; the
  store is untouched.
\<close>

theorem parse_body_without_rule:
  "exchange_type m \<noteq> IKE_SA_INIT \<Longrightarrow>
   get_supported_payloads m = (NOT_FOUND, []) \<and>
   parse_body C m mem =
     Some (FAILED,
           m\<lparr>logger := logger m @ [(CONTROL, Parsing_body), (ERROR, No_supported_payloads)]\<rparr>,
           mem)"
  by (simp add: parse_body_def get_supported_payloads_result log_def)

theorem parse_body_without_rule_witness:
  "exchange_type new_message \<noteq> IKE_SA_INIT \<and>
   parse_body wire_collab new_message empty_memory =
     Some (FAILED,
           new_message\<lparr>logger := [(CONTROL, Parsing_body), (ERROR, No_supported_payloads)]\<rparr>,
           empty_memory)"
  using parse_body_without_rule [of new_message wire_collab empty_memory]
  by (simp add: new_message_def)

text \<open>
  Claim C2 as stated fails: a new message to which one payload was added (the object at
  address 0 of the sender's store), its exchange type still undefined. \<^verbatim>\<open>parse_body\<close> returns \<open>FAILED\<close>, not \<open>NOT_FOUND\<close>, and the
  chain still holds the payload.
\<close>

theorem parse_body_not_found_counterexample:
  "exchange_type (new_message\<lparr>first_payload := SECURITY_ASSOCIATION, payloads := [0]\<rparr>)
     = EXCHANGE_TYPE_UNDEFINED \<and>
   map_option fst (parse_body wire_collab
       (new_message\<lparr>first_payload := SECURITY_ASSOCIATION, payloads := [0]\<rparr>)
       sender_memory) = Some FAILED \<and>
   map_option fst (parse_body wire_collab
       (new_message\<lparr>first_payload := SECURITY_ASSOCIATION, payloads := [0]\<rparr>)
       sender_memory) \<noteq> Some NOT_FOUND \<and>
   map_option (\<lambda>r. chain_payloads (snd (snd r)) (fst (snd r))) (parse_body wire_collab
       (new_message\<lparr>first_payload := SECURITY_ASSOCIATION, payloads := [0]\<rparr>)
       sender_memory) = Some [sa_payload] \<and>
   [sa_payload] \<noteq> []"
  by (simp add: parse_body_def get_supported_payloads_result log_def new_message_def
      chain_payloads_def sender_memory_def payload_store_def)

subsection \<open>The preconditions of generation\<close>

text \<open>
  Claim C5. When the exchange type is undefined, or the source or the destination is
  NULL, \<^verbatim>\<open>generate\<close> returns \<open>INVALID_STATE\<close> and no packet. The message differs from the
  one passed in by two log lines only: its packet and byte buffer, its chain and every
  next-type link are as before. Nothing was allocated, and the result does not depend on
  the generator: none was created.
\<close>

theorem generate_invalid_state:
  "exchange_type m = EXCHANGE_TYPE_UNDEFINED \<or> source (packet m) = None \<or>
     destination (packet m) = None \<Longrightarrow>
   generate C m mem =
     Inr (INVALID_STATE, None,
          m\<lparr>logger := logger m @
             [(CONTROL, Generating_message (length (payloads m))),
              (ERROR, if exchange_type m = EXCHANGE_TYPE_UNDEFINED
                      then Exchange_type_not_defined else Source_destination_not_defined)]\<rparr>,
          mem)"
  by (auto simp: generate_def log_def Let_def)

theorem generate_invalid_state_witness:
  "exchange_type new_message = EXCHANGE_TYPE_UNDEFINED \<and>
   generate wire_collab new_message empty_memory =
     Inr (INVALID_STATE, None,
          new_message\<lparr>logger := [(CONTROL, Generating_message 0),
                                  (ERROR, Exchange_type_not_defined)]\<rparr>,
          empty_memory)"
  using generate_invalid_state [of new_message wire_collab empty_memory]
  by (simp add: new_message_def)

text \<open>
  Claim C9. The checks of \<^verbatim>\<open>generate\<close> do not look at the ike-sa-id. A message that passes
  them (exchange type defined, source and destination set) and has no ike-sa-id does not
  get \<open>INVALID_STATE\<close>: once the header object is allocated, line 485 dereferences the
  NULL pointer, the fault branch of the model. (If the header cannot be allocated the
  call returns \<open>OUT_OF_RES\<close> before that.) With the ike-sa-id set to a live object the
  fault branch is not reached.
\<close>

theorem generate_needs_ike_sa_id:
  "exchange_type m \<noteq> EXCHANGE_TYPE_UNDEFINED \<and> source (packet m) \<noteq> None \<and>
     destination (packet m) \<noteq> None \<Longrightarrow>
   (ike_sa_id m = None \<longrightarrow>
      generate C m mem =
        (if fst (allocate mem) then Inl NULL_DEREFERENCE
         else Inr (OUT_OF_RES, None,
                   log m CONTROL (Generating_message (length (payloads m))),
                   snd (allocate mem)))) \<and>
   (ike_sa_id m = Some a \<and> sa_lookup mem a = Some sa \<longrightarrow>
      \<not> isl (generate C m mem))"
  by (cases "allocate mem")
    (auto simp: generate_def log_def Let_def sa_lookup_def allocate_def split: list.splits)

theorem generate_needs_ike_sa_id_witness:
  "exchange_type addressed_message \<noteq> EXCHANGE_TYPE_UNDEFINED \<and>
   source (packet addressed_message) \<noteq> None \<and>
   destination (packet addressed_message) \<noteq> None \<and>
   ike_sa_id addressed_message = None \<and>
   generate wire_collab addressed_message empty_memory = Inl NULL_DEREFERENCE"
  using generate_needs_ike_sa_id [of addressed_message wire_collab empty_memory]
  by (simp add: addressed_message_def new_message_def allocate_def empty_memory_def)

subsection \<open>A failed header parse\<close>






subsection \<open>Evaluation at the concrete instances\<close>

lemma be_bytes_numeral [simp]:
  "be_bytes (numeral k) n = be_bytes (pred_numeral k) (n div 256) @ [of_nat (n mod 256)]"
  using be_bytes.simps(2) [of "pred_numeral k" n] by (simp only: numeral_eq_Suc [of k])

lemma payload_store_update [simp]:
  "a < length ps \<Longrightarrow> (payload_store ps)(a := v) = payload_store (ps[a := v])"
  by (rule ext) (simp add: payload_store_def)

lemma payload_store_new [simp]:
  "a = length ps \<Longrightarrow> (payload_store ps)(a := v) = payload_store (ps @ [v])"
  by (rule ext) (simp add: payload_store_def nth_append)

lemma payload_store_nth [simp]:
  "a < length ps \<Longrightarrow> payload_store ps a = ps ! a"
  by (simp add: payload_store_def)

lemmas wire_defs =
  wire_collab_def wire_generate_payload_def wire_write_to_chunk_def header_bytes_def
  default_header_def payload_type_code_def payload_type_of_code_def exchange_type_code_def
  exchange_type_of_code_def wire_parser_create_def wire_reset_context_def
  wire_parse_header_def wire_parse_payload_def wire_header_verify_def

lemmas instance_defs =
  new_message_def addressed_message_def request_start_def request_message_def
  request_memory_def generated_message_def generated_memory_def request_packet_def
  request_bytes_def sender_memory_def memory_1_def empty_memory_def sa_1_def
  sa_payload_def ke_payload_def nonce_payload_def host_a_def host_b_def
  once_message_def twice_message_def twice_memory_def twice_packet_def
  twice_generated_def twice_generated_memory_def

lemmas bytes_defs = init_header_def sa_bytes_def ke_bytes_def nonce_bytes_def
  two_nonce_bytes_def no_ke_bytes_def two_sa_bytes_def ke_nonce_bytes_def
  extra_nonce_bytes_def header_parsed_def received_message_def

lemmas generate_eval =
  generate_def generate_body_def generate_header_def allocate_def sa_lookup_def
  log_def Let_def packet_clone_def

lemmas add_eval = add_payload_def insert_last_def allocate_def log_def Let_def

subsection \<open>Adding payloads and generating\<close>

lemma allocate_fields [simp]:
  "payload_cells (snd (allocate mem)) = payload_cells mem"
  "payload_count (snd (allocate mem)) = payload_count mem"
  by (simp_all add: allocate_def split: list.splits)

lemma add_payload_result:
  "add_payload m a mem =
     (if \<not> fst (allocate mem) then (OUT_OF_RES, m, snd (allocate mem))
      else if payloads m = []
      then (SUCCESS,
            m\<lparr>payloads := [a], first_payload := pl_type (payload_cells mem a),
              logger := logger m @ [(CONTROL_MORE, Added_payload (pl_type (payload_cells mem a)))]\<rparr>,
            snd (allocate mem))
      else (SUCCESS,
            m\<lparr>payloads := payloads m @ [a],
              logger := logger m @ [(CONTROL_MORE, Added_payload (pl_type (payload_cells mem a)))]\<rparr>,
            (snd (allocate mem))
              \<lparr>payload_cells := (payload_cells mem)
                 (last (payloads m) := (payload_cells mem (last (payloads m)))
                    \<lparr>pl_next := pl_type (payload_cells mem a)\<rparr>)\<rparr>))"
  by (auto simp: add_payload_def insert_last_def allocate_def log_def Let_def
      split: list.splits bool.splits)

lemma pairs_linked_snoc:
  "pairs_linked (ys @ [y]) \<Longrightarrow> pairs_linked (ys @ [y\<lparr>pl_next := pl_type p\<rparr>, p])"
proof (induction ys)
  case Nil
  then show ?case by simp
next
  case (Cons x ys)
  then show ?case by (cases ys) simp_all
qed

lemma chain_linked_snoc:
  "chain_linked (ys @ [y]) \<Longrightarrow> pl_next p = NO_PAYLOAD \<Longrightarrow>
   chain_linked (ys @ [y\<lparr>pl_next := pl_type p\<rparr>, p])"
proof (induction ys)
  case Nil
  then show ?case by simp
next
  case (Cons x ys)
  then show ?case by (cases ys) simp_all
qed

lemma map_update_last:
  assumes "distinct (ys @ [l])" and "a \<notin> set (ys @ [l])"
  shows "map (h(l := v)) (ys @ [l] @ [a]) = map h ys @ [v, h a]"
  using assms by (auto simp: map_idI)

lemma set_next_type_at_object:
  "set_next_type_at cur t hdr mem = (hdr', mem') \<Longrightarrow>
   object_at cur hdr' mem' = set_next_type (object_at cur hdr mem) t"
  by (cases cur) auto

lemma payload_eq_but_next:
  "pl_type p' = pl_type p \<Longrightarrow> pl_body p' = pl_body p \<Longrightarrow>
   p'\<lparr>pl_next := t\<rparr> = (p\<lparr>pl_next := t\<rparr> :: payload)"
  by (cases p, cases p') simp

lemma relink_from_cong:
  "pl_type p' = pl_type p \<Longrightarrow> pl_body p' = pl_body p \<Longrightarrow>
   map pl_type qs' = map pl_type qs \<Longrightarrow> map pl_body qs' = map pl_body qs \<Longrightarrow>
   relink_from (Payload_obj p') qs' = relink_from (Payload_obj p) qs"
proof (induction qs arbitrary: qs' p p')
  case Nil
  from payload_eq_but_next [OF Nil.prems(1,2)] Nil.prems(3) show ?case by simp
next
  case (Cons q qs)
  then obtain q' qs0 where q: "qs' = q' # qs0" by (cases qs') auto
  with Cons.prems have e: "pl_type q' = pl_type q" "pl_body q' = pl_body q"
    "map pl_type qs0 = map pl_type qs" "map pl_body qs0 = map pl_body qs"
    by simp_all
  have "p'\<lparr>pl_next := pl_type q\<rparr> = p\<lparr>pl_next := pl_type q\<rparr>"
    by (rule payload_eq_but_next [OF Cons.prems(1,2)])
  with Cons.IH [OF e] q e(1) show ?case by simp
qed

lemma same_objects_refl [simp]: "same_objects mem mem"
  by (simp add: same_objects_def)

lemma same_objects_trans:
  "same_objects mem mem1 \<Longrightarrow> same_objects mem1 mem2 \<Longrightarrow> same_objects mem mem2"
  by (simp add: same_objects_def)

lemma set_next_type_at_same:
  "set_next_type_at cur t hdr mem = (hdr', mem') \<Longrightarrow> same_objects mem mem'"
  by (cases cur) (auto simp: same_objects_def)

lemma generate_loop_same:
  "generate_loop C cur rest hdr mem g = (st, cur', hdr', mem', g') \<Longrightarrow> same_objects mem mem'"
proof (induction rest arbitrary: cur hdr mem g)
  case Nil
  then show ?case by simp
next
  case (Cons r rest)
  obtain hdr1 mem1 where s: "set_next_type_at cur (pl_type (payload_cells mem r)) hdr mem = (hdr1, mem1)"
    by (cases "set_next_type_at cur (pl_type (payload_cells mem r)) hdr mem")
  obtain st1 g1 where g: "generate_payload C g (object_at cur hdr1 mem1) = (st1, g1)"
    by (cases "generate_payload C g (object_at cur hdr1 mem1)")
  show ?case
  proof (cases "st1 = SUCCESS")
    case True
    with Cons.prems s g have "generate_loop C (Payload_ref r) rest hdr1 mem1 g1 = (st, cur', hdr', mem', g')"
      by simp
    from Cons.IH [OF this] set_next_type_at_same [OF s] show ?thesis
      by (rule same_objects_trans [rotated])
  next
    case False
    with Cons.prems s g set_next_type_at_same [OF s] show ?thesis by auto
  qed
qed

lemma same_objects_maps:
  "same_objects mem mem' \<Longrightarrow>
   map pl_type (map (payload_cells mem') as) = map pl_type (map (payload_cells mem) as) \<and>
   map pl_body (map (payload_cells mem') as) = map pl_body (map (payload_cells mem) as)"
  by (simp add: same_objects_def)

lemma generate_loop_trace:
  "generate_loop C cur rest hdr mem g = (SUCCESS, cur', hdr', mem', g') \<Longrightarrow>
   set_next_type_at cur' NO_PAYLOAD hdr' mem' = (hdr2, mem2) \<Longrightarrow>
   generate_payload C g' (object_at cur' hdr2 mem2) = (SUCCESS, g2) \<Longrightarrow>
   generate_all C g (relink_from (object_at cur hdr mem) (map (payload_cells mem) rest)) =
     (SUCCESS, g2)"
proof (induction rest arbitrary: cur hdr mem g)
  case Nil
  then show ?case by (auto simp: set_next_type_at_object)
next
  case (Cons r rest)
  obtain hdr1 mem1 where s: "set_next_type_at cur (pl_type (payload_cells mem r)) hdr mem = (hdr1, mem1)"
    by (cases "set_next_type_at cur (pl_type (payload_cells mem r)) hdr mem")
  obtain st1 g1 where g: "generate_payload C g (object_at cur hdr1 mem1) = (st1, g1)"
    by (cases "generate_payload C g (object_at cur hdr1 mem1)")
  from Cons.prems(1) s g have ok: "st1 = SUCCESS"
    by (auto split: if_splits)
  with Cons.prems(1) s g have
    "generate_loop C (Payload_ref r) rest hdr1 mem1 g1 = (SUCCESS, cur', hdr', mem', g')"
    by simp
  from Cons.IH [OF this Cons.prems(2,3)] have
    ih: "generate_all C g1 (relink_from (Payload_obj (payload_cells mem1 r))
           (map (payload_cells mem1) rest)) = (SUCCESS, g2)"
    by simp
  from set_next_type_at_same [OF s] have so: "same_objects mem mem1" .
  then have "relink_from (Payload_obj (payload_cells mem1 r)) (map (payload_cells mem1) rest) =
      relink_from (Payload_obj (payload_cells mem r)) (map (payload_cells mem) rest)"
    using same_objects_maps [OF so, of rest]
    by (intro relink_from_cong) (simp_all add: same_objects_def)
  with ih g ok set_next_type_at_object [OF s] show ?case by simp
qed

lemma same_objects_allocate [simp]: "same_objects mem (snd (allocate mem))"
  by (simp add: same_objects_def)

lemma generate_loop_links:
  "generate_loop C (Payload_ref c) rest hdr mem g = (SUCCESS, cur', hdr', mem', g') \<Longrightarrow>
   set_next_type_at cur' NO_PAYLOAD hdr' mem' = (hdr2, mem2) \<Longrightarrow>
   distinct (c # rest) \<Longrightarrow>
   map (payload_cells mem2) (c # rest) = relink (map (payload_cells mem) (c # rest)) \<and>
   (\<forall>a. a \<notin> set (c # rest) \<longrightarrow> payload_cells mem2 a = payload_cells mem a)"
proof (induction rest arbitrary: c hdr mem g)
  case Nil
  then show ?case by auto
next
  case (Cons r rest)
  let ?mem1 = "mem\<lparr>payload_cells := (payload_cells mem)
      (c := (payload_cells mem c)\<lparr>pl_next := pl_type (payload_cells mem r)\<rparr>)\<rparr>"
  obtain st1 g1 where g: "generate_payload C g (Payload_obj (payload_cells ?mem1 c)) = (st1, g1)"
    by (cases "generate_payload C g (Payload_obj (payload_cells ?mem1 c))")
  from Cons.prems(1) g have ok: "st1 = SUCCESS"
    by (auto split: if_splits)
  with Cons.prems(1) g have
    "generate_loop C (Payload_ref r) rest hdr ?mem1 g1 = (SUCCESS, cur', hdr', mem', g')"
    by simp
  then have loop1:
    "generate_loop C (Payload_ref r) rest hdr ?mem1 g1 = (SUCCESS, cur', hdr', mem', g')" .
  from Cons.prems(3) have d: "distinct (r # rest)" and c: "c \<notin> set (r # rest)"
    by simp_all
  note IH = Cons.IH [OF loop1 Cons.prems(2) d]
  from IH have
    ih1: "map (payload_cells mem2) (r # rest) = relink (map (payload_cells ?mem1) (r # rest))"
    by (rule conjunct1)
  from IH have
    ih2: "\<forall>a. a \<notin> set (r # rest) \<longrightarrow> payload_cells mem2 a = payload_cells ?mem1 a"
    by (rule conjunct2)
  note ih = ih1 ih2
  from c have same: "map (payload_cells ?mem1) (r # rest) = map (payload_cells mem) (r # rest)"
    by auto
  from ih1 have A: "map (payload_cells mem2) (r # rest) = relink (map (payload_cells mem) (r # rest))"
    by (simp only: same)
  from ih2 c have hc: "payload_cells mem2 c =
      (payload_cells mem c)\<lparr>pl_next := pl_type (payload_cells mem r)\<rparr>"
    by simp
  have B: "map (payload_cells mem2) (c # r # rest) =
      relink (map (payload_cells mem) (c # r # rest))"
    using A hc by simp
  have F: "\<forall>a. a \<notin> set (c # r # rest) \<longrightarrow> payload_cells mem2 a = payload_cells mem a"
    using ih2 by simp
  from B F show ?case by blast
qed

lemma generate_loop_links_header:
  assumes "generate_loop C Header_ref chain hdr mem g = (SUCCESS, cur', hdr', mem', g')"
    and "set_next_type_at cur' NO_PAYLOAD hdr' mem' = (hdr2, mem2)"
    and "distinct chain"
  shows "map (payload_cells mem2) chain = relink (map (payload_cells mem) chain)"
proof (cases chain)
  case Nil
  with assms show ?thesis by auto
next
  case (Cons r rest)
  let ?hdr1 = "hdr\<lparr>hdr_next_payload := pl_type (payload_cells mem r)\<rparr>"
  obtain st1 g1 where g: "generate_payload C g (Header_obj ?hdr1) = (st1, g1)"
    by (cases "generate_payload C g (Header_obj ?hdr1)")
  from assms(1) Cons g have ok: "st1 = SUCCESS"
    by (auto split: if_splits)
  with assms(1) Cons g have
    "generate_loop C (Payload_ref r) rest ?hdr1 mem g1 = (SUCCESS, cur', hdr', mem', g')"
    by simp
  from generate_loop_links [OF this assms(2)] assms(3) Cons show ?thesis by simp
qed

lemma generate_header_logger [simp]:
  "generate_header C (m\<lparr>logger := lg\<rparr>) sa = generate_header C m sa"
  by (simp add: generate_header_def)

lemma packet_clone_result:
  "packet_clone pk mem = (out, mem') \<Longrightarrow>
   (out = None \<or> out = Some pk) \<and> mem' = snd (allocate mem)"
  by (auto simp: packet_clone_def split: prod.splits bool.splits)

lemma generate_body_success:
  assumes "generate_body C hdr m mem = (SUCCESS, out, m1, mem1)"
  shows "\<exists>g1 ch.
     generate_all C (generator_create C)
       (relink_from (Header_obj hdr) (map (payload_cells mem) (payloads m))) = (SUCCESS, g1) \<and>
     write_to_chunk C g1 = (SUCCESS, ch) \<and>
     m1 = log (m\<lparr>packet := (packet m)\<lparr>data := ch\<rparr>\<rparr>) CONTROL Message_generated \<and>
     (out = None \<or> out = Some ((packet m)\<lparr>data := ch\<rparr>)) \<and>
     same_objects mem mem1 \<and>
     (distinct (payloads m) \<longrightarrow>
        map (payload_cells mem1) (payloads m) = relink (map (payload_cells mem) (payloads m)))"
proof -
  let ?mem2 = "snd (allocate (snd (allocate mem)))"
  from assms have al: "fst (allocate mem)" "fst (allocate (snd (allocate mem)))"
    by (auto simp: generate_body_def split: prod.splits bool.splits)
  obtain st cur hdr1 mem3 g where
    loop: "generate_loop C Header_ref (payloads m) hdr ?mem2 (generator_create C) =
             (st, cur, hdr1, mem3, g)"
    by (cases "generate_loop C Header_ref (payloads m) hdr ?mem2 (generator_create C)")
  obtain hdr2 mem4 where fin: "set_next_type_at cur NO_PAYLOAD hdr1 mem3 = (hdr2, mem4)"
    by (cases "set_next_type_at cur NO_PAYLOAD hdr1 mem3")
  obtain st1 g1 where last: "generate_payload C g (object_at cur hdr2 mem4) = (st1, g1)"
    by (cases "generate_payload C g (object_at cur hdr2 mem4)")
  obtain st2 ch where wr: "write_to_chunk C g1 = (st2, ch)"
    by (cases "write_to_chunk C g1")
  obtain out' mem5 where cl: "packet_clone ((packet m)\<lparr>data := ch\<rparr>) mem4 = (out', mem5)"
    by (cases "packet_clone ((packet m)\<lparr>data := ch\<rparr>) mem4")
  from assms al loop fin last wr cl have ok: "st = SUCCESS" "st1 = SUCCESS" "st2 = SUCCESS"
    and res: "out = out'" "mem1 = mem5"
      "m1 = log (m\<lparr>packet := (packet m)\<lparr>data := ch\<rparr>\<rparr>) CONTROL Message_generated"
    by (auto simp: generate_body_def Let_def split: prod.splits bool.splits if_splits)
  have cells2: "payload_cells ?mem2 = payload_cells mem" by simp
  from generate_loop_trace [OF loop [unfolded ok] fin last [unfolded ok]]
  have tr: "generate_all C (generator_create C)
      (relink_from (Header_obj hdr) (map (payload_cells mem) (payloads m))) = (SUCCESS, g1)"
    by (simp add: cells2)
  have s1: "same_objects mem ?mem2"
    by (simp add: same_objects_def)
  from generate_loop_same [OF loop] set_next_type_at_same [OF fin]
  have s2: "same_objects ?mem2 mem4"
    by (rule same_objects_trans)
  from packet_clone_result [OF cl] have m5: "mem5 = snd (allocate mem4)" by simp
  have s3: "same_objects mem mem1"
    using s1 s2 by (simp add: same_objects_def res m5)
  have lk: "distinct (payloads m) \<longrightarrow>
        map (payload_cells mem1) (payloads m) = relink (map (payload_cells mem) (payloads m))"
    using generate_loop_links_header [OF loop [unfolded ok] fin]
    by (simp add: res m5 cells2)
  from packet_clone_result [OF cl] res have "out = None \<or> out = Some ((packet m)\<lparr>data := ch\<rparr>)"
    by simp
  with tr wr ok res s3 lk show ?thesis by blast
qed

lemma generate_success:
  assumes "generate C m mem = Inr (SUCCESS, out, m1, mem1)"
  shows "\<exists>a sa g1 ch.
     ike_sa_id m = Some a \<and> sa_lookup mem a = Some sa \<and>
     exchange_type m \<noteq> EXCHANGE_TYPE_UNDEFINED \<and>
     generate_all C (generator_create C)
       (relink_from (Header_obj (generate_header C m sa)) (chain_payloads mem m)) =
       (SUCCESS, g1) \<and>
     write_to_chunk C g1 = (SUCCESS, ch) \<and>
     m1 = m\<lparr>packet := (packet m)\<lparr>data := ch\<rparr>,
            logger := logger m @ [(CONTROL, Generating_message (length (payloads m))),
                                  (CONTROL, Message_generated)]\<rparr> \<and>
     (out = None \<or> out = Some ((packet m)\<lparr>data := ch\<rparr>)) \<and>
     same_objects mem mem1 \<and>
     (distinct (payloads m) \<longrightarrow> chain_payloads mem1 m1 = relink (chain_payloads mem m))"
proof -
  let ?m0 = "log m CONTROL (Generating_message (length (payloads m)))"
  from assms obtain a sa where
    a: "ike_sa_id m = Some a" "sa_lookup mem a = Some sa"
       "exchange_type m \<noteq> EXCHANGE_TYPE_UNDEFINED"
    and body: "generate_body C (generate_header C ?m0 sa) ?m0 (snd (allocate mem)) =
        (SUCCESS, out, m1, mem1)"
    by (auto simp: generate_def Let_def log_def sa_lookup_def allocate_def
        split: if_splits prod.splits bool.splits option.splits list.splits)
  from generate_body_success [OF body] obtain g1 ch where
    b: "generate_all C (generator_create C)
       (relink_from (Header_obj (generate_header C ?m0 sa))
          (map (payload_cells (snd (allocate mem))) (payloads ?m0))) = (SUCCESS, g1)"
     "write_to_chunk C g1 = (SUCCESS, ch)"
     "m1 = log (?m0\<lparr>packet := (packet ?m0)\<lparr>data := ch\<rparr>\<rparr>) CONTROL Message_generated"
     "out = None \<or> out = Some ((packet ?m0)\<lparr>data := ch\<rparr>)"
     "same_objects (snd (allocate mem)) mem1"
     "distinct (payloads ?m0) \<longrightarrow>
        map (payload_cells mem1) (payloads ?m0) =
          relink (map (payload_cells (snd (allocate mem))) (payloads ?m0))"
    by blast
  have p0: "payloads ?m0 = payloads m" "packet ?m0 = packet m"
    by (simp_all add: log_def)
  from b(5) have so: "same_objects mem mem1"
    by (simp add: same_objects_def)
  from b(3) have m1: "m1 = m\<lparr>packet := (packet m)\<lparr>data := ch\<rparr>,
            logger := logger m @ [(CONTROL, Generating_message (length (payloads m))),
                                  (CONTROL, Message_generated)]\<rparr>"
    by (simp add: log_def)
  then have p1: "payloads m1 = payloads m" by simp
  from b(1) have tr: "generate_all C (generator_create C)
       (relink_from (Header_obj (generate_header C m sa)) (chain_payloads mem m)) =
       (SUCCESS, g1)"
    by (simp add: log_def chain_payloads_def)
  from b(6) p1 have lk: "distinct (payloads m) \<longrightarrow>
       chain_payloads mem1 m1 = relink (chain_payloads mem m)"
    by (simp add: p0 chain_payloads_def)
  from a tr b(2) m1 b(4) so lk show ?thesis
    by (simp add: p0)
qed

subsection \<open>The linkage of the chain\<close>

lemma add_payload_pairs:
  assumes "fst (allocate mem0)" and "distinct (payloads n)"
    and "pairs_linked (chain_payloads mem0 n)"
  shows "pairs_linked (chain_payloads (snd (snd (add_payload n a mem0)))
           (fst (snd (add_payload n a mem0))))"
proof (cases "payloads n" rule: rev_cases)
  case Nil
  with assms(1) show ?thesis
    by (simp add: add_payload_result chain_payloads_def)
next
  case (snoc ys l)
  let ?h = "payload_cells mem0"
  let ?h' = "?h(l := (?h l)\<lparr>pl_next := pl_type (?h a)\<rparr>)"
  from assms(2) snoc have l: "l \<notin> set ys" by simp
  then have ys: "map ?h' ys = map ?h ys" by auto
  have ta: "pl_type (?h' a) = pl_type (?h a)" by simp
  from assms(3) snoc have "pairs_linked (map ?h ys @ [?h l])"
    by (simp add: chain_payloads_def)
  from pairs_linked_snoc [OF this, of "?h' a"] ta
  have "pairs_linked (map ?h ys @ [(?h l)\<lparr>pl_next := pl_type (?h a)\<rparr>, ?h' a])"
    by simp
  moreover have "chain_payloads (snd (snd (add_payload n a mem0)))
           (fst (snd (add_payload n a mem0))) =
      map ?h' ys @ [(?h l)\<lparr>pl_next := pl_type (?h a)\<rparr>, ?h' a]"
    using assms(1) snoc by (simp add: add_payload_result chain_payloads_def)
  ultimately show ?thesis by (simp only: ys)
qed

lemma add_payload_linked:
  assumes "fst (allocate mem0)" and "distinct (payloads n)"
    and "chain_linked (chain_payloads mem0 n)" and "a \<notin> set (payloads n)"
    and "pl_next (payload_cells mem0 a) = NO_PAYLOAD"
  shows "chain_linked (chain_payloads (snd (snd (add_payload n a mem0)))
           (fst (snd (add_payload n a mem0))))"
proof (cases "payloads n" rule: rev_cases)
  case Nil
  with assms(1,5) show ?thesis
    by (simp add: add_payload_result chain_payloads_def)
next
  case (snoc ys l)
  let ?h = "payload_cells mem0"
  let ?h' = "?h(l := (?h l)\<lparr>pl_next := pl_type (?h a)\<rparr>)"
  from assms(2) snoc have l: "l \<notin> set ys" by simp
  then have ys: "map ?h' ys = map ?h ys" by auto
  from assms(4) snoc have a: "?h' a = ?h a" by simp
  from assms(3) snoc have "chain_linked (map ?h ys @ [?h l])"
    by (simp add: chain_payloads_def)
  from chain_linked_snoc [OF this assms(5)]
  have "chain_linked (map ?h ys @ [(?h l)\<lparr>pl_next := pl_type (?h a)\<rparr>, ?h a])" .
  moreover have "chain_payloads (snd (snd (add_payload n a mem0)))
           (fst (snd (add_payload n a mem0))) =
      map ?h' ys @ [(?h l)\<lparr>pl_next := pl_type (?h a)\<rparr>, ?h' a]"
    using assms(1) snoc by (simp add: add_payload_result chain_payloads_def)
  ultimately show ?thesis by (simp only: ys a)
qed

lemma chain_linked_relink: "chain_linked (relink ps)"
proof (induction ps rule: relink.induct)
  case (3 p q ps)
  then show ?case by (cases ps) simp_all
qed simp_all

lemma map_type_relink: "map pl_type (relink ps) = map pl_type ps"
  by (induction ps rule: relink.induct) simp_all

lemma map_body_relink: "map pl_body (relink ps) = map pl_body ps"
  by (induction ps rule: relink.induct) simp_all

text \<open>
  Claim C6, as the code has it. The chain holds pointers, and a link is written to the
  object pointed to. For a message whose chain holds no payload object twice, a
  successful \<^verbatim>\<open>generate\<close> leaves the chain linked: the next-type of every payload is the
  type of the payload after it, and the next-type of the last one is \<open>NO_PAYLOAD\<close>; the
  chain holds the same objects, with their types and contents.
  \<^verbatim>\<open>add_payload\<close> returns \<open>OUT_OF_RES\<close> and changes nothing when the list cannot grow.
  Otherwise it appends the pointer; on an empty chain it records the type of the payload
  as first-payload-type, on any other chain it sets the next-type of the object that was
  last to the type of the new payload and leaves first-payload-type alone. On a chain
  without a repeated object this keeps every adjacent pair linked, and it keeps the whole
  linkage when the payload is new to the chain and its own next-type is \<open>NO_PAYLOAD\<close>.
\<close>

theorem chain_linkage:
  "(distinct (payloads m) \<and> generate C m mem = Inr (SUCCESS, out, m1, mem1) \<longrightarrow>
      payloads m1 = payloads m \<and> chain_linked (chain_payloads mem1 m1) \<and>
      map pl_type (chain_payloads mem1 m1) = map pl_type (chain_payloads mem m) \<and>
      map pl_body (chain_payloads mem1 m1) = map pl_body (chain_payloads mem m)) \<and>
   add_payload n a mem0 =
     (if \<not> fst (allocate mem0) then (OUT_OF_RES, n, snd (allocate mem0))
      else if payloads n = []
      then (SUCCESS,
            n\<lparr>payloads := [a], first_payload := pl_type (payload_cells mem0 a),
              logger := logger n @
                [(CONTROL_MORE, Added_payload (pl_type (payload_cells mem0 a)))]\<rparr>,
            snd (allocate mem0))
      else (SUCCESS,
            n\<lparr>payloads := payloads n @ [a],
              logger := logger n @
                [(CONTROL_MORE, Added_payload (pl_type (payload_cells mem0 a)))]\<rparr>,
            (snd (allocate mem0))
              \<lparr>payload_cells := (payload_cells mem0)
                 (last (payloads n) := (payload_cells mem0 (last (payloads n)))
                    \<lparr>pl_next := pl_type (payload_cells mem0 a)\<rparr>)\<rparr>)) \<and>
   (fst (allocate mem0) \<and> distinct (payloads n) \<longrightarrow>
      (pairs_linked (chain_payloads mem0 n) \<longrightarrow>
         pairs_linked (chain_payloads (snd (snd (add_payload n a mem0)))
           (fst (snd (add_payload n a mem0))))) \<and>
      (chain_linked (chain_payloads mem0 n) \<and> a \<notin> set (payloads n) \<and>
       pl_next (payload_cells mem0 a) = NO_PAYLOAD \<longrightarrow>
         chain_linked (chain_payloads (snd (snd (add_payload n a mem0)))
           (fst (snd (add_payload n a mem0))))))"
proof (intro conjI impI)
  assume g: "distinct (payloads m) \<and> generate C m mem = Inr (SUCCESS, out, m1, mem1)"
  then have d: "distinct (payloads m)" and g': "generate C m mem = Inr (SUCCESS, out, m1, mem1)"
    by simp_all
  from generate_success [OF g'] d have
    r: "chain_payloads mem1 m1 = relink (chain_payloads mem m)" and p: "payloads m1 = payloads m"
    by auto
  from p show "payloads m1 = payloads m" .
  from r show "chain_linked (chain_payloads mem1 m1)"
    by (simp add: chain_linked_relink)
  from r show "map pl_type (chain_payloads mem1 m1) = map pl_type (chain_payloads mem m)"
    by (simp add: map_type_relink)
  from r show "map pl_body (chain_payloads mem1 m1) = map pl_body (chain_payloads mem m)"
    by (simp add: map_body_relink)
next
  show "add_payload n a mem0 =
     (if \<not> fst (allocate mem0) then (OUT_OF_RES, n, snd (allocate mem0))
      else if payloads n = []
      then (SUCCESS,
            n\<lparr>payloads := [a], first_payload := pl_type (payload_cells mem0 a),
              logger := logger n @
                [(CONTROL_MORE, Added_payload (pl_type (payload_cells mem0 a)))]\<rparr>,
            snd (allocate mem0))
      else (SUCCESS,
            n\<lparr>payloads := payloads n @ [a],
              logger := logger n @
                [(CONTROL_MORE, Added_payload (pl_type (payload_cells mem0 a)))]\<rparr>,
            (snd (allocate mem0))
              \<lparr>payload_cells := (payload_cells mem0)
                 (last (payloads n) := (payload_cells mem0 (last (payloads n)))
                    \<lparr>pl_next := pl_type (payload_cells mem0 a)\<rparr>)\<rparr>))"
    by (rule add_payload_result)
next
  assume "fst (allocate mem0) \<and> distinct (payloads n)"
    and "pairs_linked (chain_payloads mem0 n)"
  then show "pairs_linked (chain_payloads (snd (snd (add_payload n a mem0)))
           (fst (snd (add_payload n a mem0))))"
    by (simp add: add_payload_pairs)
next
  assume "fst (allocate mem0) \<and> distinct (payloads n)"
    and "chain_linked (chain_payloads mem0 n) \<and> a \<notin> set (payloads n) \<and>
       pl_next (payload_cells mem0 a) = NO_PAYLOAD"
  then show "chain_linked (chain_payloads (snd (snd (add_payload n a mem0)))
           (fst (snd (add_payload n a mem0))))"
    by (simp add: add_payload_linked)
qed

lemma generate_request:
  "generate wire_collab request_message request_memory =
     Inr (SUCCESS, Some request_packet, generated_message, generated_memory)"
  by (simp add: generate_eval wire_defs instance_defs)

lemma generate_twice:
  "generate wire_collab twice_message twice_memory =
     Inr (SUCCESS, Some twice_packet, twice_generated, twice_generated_memory)"
  by (simp add: generate_eval wire_defs instance_defs bytes_defs)

text \<open>
  An instance. The request with the payloads at 0, 1 and 2, the last of which carries a
  stale link: its chain is not linked before generation and is linked after. And the
  first two of the calls of \<^verbatim>\<open>add_payload\<close> that built it, from the empty chain on.
\<close>

theorem chain_linkage_witness:
  "generate wire_collab request_message request_memory =
     Inr (SUCCESS, Some request_packet, generated_message, generated_memory) \<and>
   \<not> chain_linked (chain_payloads request_memory request_message) \<and>
   chain_linked (chain_payloads generated_memory generated_message) \<and>
   add_payload request_start 0 sender_memory =
     (SUCCESS,
      request_start\<lparr>payloads := [0], first_payload := SECURITY_ASSOCIATION,
        logger := [(CONTROL_MORE, Added_payload SECURITY_ASSOCIATION)]\<rparr>,
      sender_memory) \<and>
   add_payload
     (request_start\<lparr>payloads := [0], first_payload := SECURITY_ASSOCIATION,
        logger := [(CONTROL_MORE, Added_payload SECURITY_ASSOCIATION)]\<rparr>) 1 sender_memory =
     (SUCCESS,
      request_start\<lparr>payloads := [0, 1], first_payload := SECURITY_ASSOCIATION,
        logger := [(CONTROL_MORE, Added_payload SECURITY_ASSOCIATION),
                   (CONTROL_MORE, Added_payload KEY_EXCHANGE)]\<rparr>,
      sender_memory\<lparr>payload_cells :=
        payload_store [sa_payload\<lparr>pl_next := KEY_EXCHANGE\<rparr>, ke_payload,
                       nonce_payload\<lparr>pl_next := KEY_EXCHANGE\<rparr>]\<rparr>) \<and>
   chain_linked
     (chain_payloads
        (sender_memory\<lparr>payload_cells :=
           payload_store [sa_payload\<lparr>pl_next := KEY_EXCHANGE\<rparr>, ke_payload,
                          nonce_payload\<lparr>pl_next := KEY_EXCHANGE\<rparr>]\<rparr>)
        (request_start\<lparr>payloads := [0, 1], first_payload := SECURITY_ASSOCIATION,
           logger := [(CONTROL_MORE, Added_payload SECURITY_ASSOCIATION),
                      (CONTROL_MORE, Added_payload KEY_EXCHANGE)]\<rparr>))"
proof -
  let ?n1 = "request_start\<lparr>payloads := [0], first_payload := SECURITY_ASSOCIATION,
        logger := [(CONTROL_MORE, Added_payload SECURITY_ASSOCIATION)]\<rparr>"
  let ?n2 = "request_start\<lparr>payloads := [0, 1], first_payload := SECURITY_ASSOCIATION,
        logger := [(CONTROL_MORE, Added_payload SECURITY_ASSOCIATION),
                   (CONTROL_MORE, Added_payload KEY_EXCHANGE)]\<rparr>"
  let ?mem2 = "sender_memory\<lparr>payload_cells :=
        payload_store [sa_payload\<lparr>pl_next := KEY_EXCHANGE\<rparr>, ke_payload,
                       nonce_payload\<lparr>pl_next := KEY_EXCHANGE\<rparr>]\<rparr>"
  note A = chain_linkage [where m = request_message and C = wire_collab and mem = request_memory
      and out = "Some request_packet" and ?m1.0 = generated_message
      and ?mem1.0 = generated_memory and n = request_start and a = 0
      and ?mem0.0 = sender_memory]
  note B = chain_linkage [where m = request_message and C = wire_collab and mem = request_memory
      and out = "Some request_packet" and ?m1.0 = generated_message
      and ?mem1.0 = generated_memory and n = ?n1 and a = 1 and ?mem0.0 = sender_memory]
  have d: "distinct (payloads request_message)"
    by (simp add: instance_defs)
  have al: "fst (allocate sender_memory)" "snd (allocate sender_memory) = sender_memory"
    by (simp_all add: allocate_def sender_memory_def)
  from A d generate_request
  have 1: "chain_linked (chain_payloads generated_memory generated_message)"
    by blast
  have 2: "\<not> chain_linked (chain_payloads request_memory request_message)"
    by (simp add: chain_payloads_def instance_defs)
  from A have "add_payload request_start 0 sender_memory =
     (if \<not> fst (allocate sender_memory)
      then (OUT_OF_RES, request_start, snd (allocate sender_memory))
      else if payloads request_start = []
      then (SUCCESS,
            request_start\<lparr>payloads := [0],
              first_payload := pl_type (payload_cells sender_memory 0),
              logger := logger request_start @
                [(CONTROL_MORE, Added_payload (pl_type (payload_cells sender_memory 0)))]\<rparr>,
            snd (allocate sender_memory))
      else (SUCCESS,
            request_start\<lparr>payloads := payloads request_start @ [0],
              logger := logger request_start @
                [(CONTROL_MORE, Added_payload (pl_type (payload_cells sender_memory 0)))]\<rparr>,
            (snd (allocate sender_memory))
              \<lparr>payload_cells := (payload_cells sender_memory)
                 (last (payloads request_start) :=
                    (payload_cells sender_memory (last (payloads request_start)))
                    \<lparr>pl_next := pl_type (payload_cells sender_memory 0)\<rparr>)\<rparr>))"
    by blast
  then have 3: "add_payload request_start 0 sender_memory = (SUCCESS, ?n1, sender_memory)"
    by (simp add: al) (simp add: instance_defs)
  from B have "add_payload ?n1 1 sender_memory =
     (if \<not> fst (allocate sender_memory) then (OUT_OF_RES, ?n1, snd (allocate sender_memory))
      else if payloads ?n1 = []
      then (SUCCESS,
            ?n1\<lparr>payloads := [1], first_payload := pl_type (payload_cells sender_memory 1),
              logger := logger ?n1 @
                [(CONTROL_MORE, Added_payload (pl_type (payload_cells sender_memory 1)))]\<rparr>,
            snd (allocate sender_memory))
      else (SUCCESS,
            ?n1\<lparr>payloads := payloads ?n1 @ [1],
              logger := logger ?n1 @
                [(CONTROL_MORE, Added_payload (pl_type (payload_cells sender_memory 1)))]\<rparr>,
            (snd (allocate sender_memory))
              \<lparr>payload_cells := (payload_cells sender_memory)
                 (last (payloads ?n1) := (payload_cells sender_memory (last (payloads ?n1)))
                    \<lparr>pl_next := pl_type (payload_cells sender_memory 1)\<rparr>)\<rparr>))"
    by blast
  then have 4: "add_payload ?n1 1 sender_memory = (SUCCESS, ?n2, ?mem2)"
    by (simp add: al) (simp add: instance_defs)
  have l1: "chain_linked (chain_payloads sender_memory ?n1)" "distinct (payloads ?n1)"
    "1 \<notin> set (payloads ?n1)" "pl_next (payload_cells sender_memory 1) = NO_PAYLOAD"
    by (simp_all add: chain_payloads_def instance_defs)
  from B al(1) l1 have
    "chain_linked (chain_payloads (snd (snd (add_payload ?n1 1 sender_memory)))
           (fst (snd (add_payload ?n1 1 sender_memory))))"
    by blast
  then have 5: "chain_linked (chain_payloads ?mem2 ?n2)"
    by (simp only: 4 fst_conv snd_conv)
  from generate_request 2 1 3 4 5 show ?thesis by blast
qed

text \<open>
  Claim C6 as stated fails: the nonce payload at address 2 added twice. Both calls
  succeed, and so does \<^verbatim>\<open>generate\<close>; the line 518 has then overwritten the link that
  line 506 wrote to the same object, so the first entry of the chain reads \<open>NO_PAYLOAD\<close>
  where a nonce payload follows.
\<close>

theorem chain_linkage_shared_payload_counterexample:
  "add_payload request_start 2 sender_memory = (SUCCESS, once_message, sender_memory) \<and>
   add_payload once_message 2 sender_memory = (SUCCESS, twice_message, twice_memory) \<and>
   generate wire_collab twice_message twice_memory =
     Inr (SUCCESS, Some twice_packet, twice_generated, twice_generated_memory) \<and>
   chain_payloads twice_generated_memory twice_generated = [nonce_payload, nonce_payload] \<and>
   pl_next nonce_payload = NO_PAYLOAD \<and> pl_type nonce_payload = NONCE \<and>
   \<not> chain_linked (chain_payloads twice_generated_memory twice_generated)"
proof -
  have 1: "add_payload request_start 2 sender_memory = (SUCCESS, once_message, sender_memory)"
    "add_payload once_message 2 sender_memory = (SUCCESS, twice_message, twice_memory)"
    by (simp_all add: add_eval instance_defs)
  have 2: "chain_payloads twice_generated_memory twice_generated = [nonce_payload, nonce_payload]"
    by (simp add: chain_payloads_def instance_defs)
  have 3: "pl_next nonce_payload = NO_PAYLOAD" "pl_type nonce_payload = NONCE"
    by (simp_all add: nonce_payload_def)
  have 4: "\<not> chain_linked (chain_payloads twice_generated_memory twice_generated)"
    by (simp add: 2 3)
  from 1 generate_twice 2 3 4 show ?thesis by blast
qed

subsection \<open>The decode loop and the occurrence check\<close>

text \<open>
  The occurrence check in terms of the number of occurrences of a type in the chain, the
  address of a decoded payload, the allocation requests of a call, and the decode loop on
  a body that decodes to given payloads.
\<close>

lemma occurrences_simps [simp]:
  "occurrences t [] = 0"
  "occurrences t (p # ps) = (if pl_type p = t then Suc (occurrences t ps) else occurrences t ps)"
  "occurrences t (ps @ qs) = occurrences t ps + occurrences t qs"
  by (simp_all add: occurrences_def)

lemma count_payloads_occurrences:
  "found \<le> max_occ \<Longrightarrow>
   count_payloads mem t max_occ as found =
     (if found + occurrences t (map (payload_cells mem) as) \<le> max_occ
      then (SUCCESS, found + occurrences t (map (payload_cells mem) as))
      else (NOT_SUPPORTED, Suc max_occ))"
  by (induction as arbitrary: found) auto

lemma check_occurences_ike_sa_init:
  "check_occurences supported_ike_sa_init_i_payloads m mem =
     (if occurrences SECURITY_ASSOCIATION (chain_payloads mem m) > 1
      then (NOT_SUPPORTED, log m ERROR (Too_many SECURITY_ASSOCIATION 1 2))
      else if occurrences SECURITY_ASSOCIATION (chain_payloads mem m) < 1
      then (NOT_SUPPORTED, log m ERROR (Too_few SECURITY_ASSOCIATION 1))
      else if occurrences KEY_EXCHANGE (chain_payloads mem m) > 1
      then (NOT_SUPPORTED, log m ERROR (Too_many KEY_EXCHANGE 1 2))
      else if occurrences KEY_EXCHANGE (chain_payloads mem m) < 1
      then (NOT_SUPPORTED, log m ERROR (Too_few KEY_EXCHANGE 1))
      else if occurrences NONCE (chain_payloads mem m) > 1
      then (NOT_SUPPORTED, log m ERROR (Too_many NONCE 1 2))
      else if occurrences NONCE (chain_payloads mem m) < 1
      then (NOT_SUPPORTED, log m ERROR (Too_few NONCE 1))
      else (SUCCESS, m))"
  by (simp add: supported_ike_sa_init_i_payloads_def count_payloads_occurrences
      chain_payloads_def numeral_2_eq_2)

lemma check_occurences_within_bounds:
  "fst (check_occurences entries m mem) =
     (if within_bounds entries (chain_payloads mem m) then SUCCESS else NOT_SUPPORTED) \<and>
   payloads (snd (check_occurences entries m mem)) = payloads m"
  by (induction entries)
    (auto simp: within_bounds_def count_payloads_occurrences chain_payloads_def log_def
      split: prod.splits)

lemma within_bounds_ike_sa_init:
  "within_bounds supported_ike_sa_init_i_payloads ps =
     (occurrences SECURITY_ASSOCIATION ps = 1 \<and> occurrences KEY_EXCHANGE ps = 1 \<and>
      occurrences NONCE ps = 1)"
  by (auto simp: within_bounds_def supported_ike_sa_init_i_payloads_def)

lemma is_supported_ike_sa_init:
  "is_supported supported_ike_sa_init_i_payloads t =
     (t = SECURITY_ASSOCIATION \<or> t = KEY_EXCHANGE \<or> t = NONCE)"
  by (auto simp: supported_ike_sa_init_i_payloads_def)

lemma fold_max_ge: "n \<le> fold max xs (n :: nat)"
  by (induction xs arbitrary: n) (auto intro: order_trans [OF max.cobounded2])

lemma fold_max_fresh: "x \<in> set xs \<Longrightarrow> x \<le> fold max xs (n :: nat)"
proof (induction xs arbitrary: n)
  case Nil
  then show ?case by simp
next
  case (Cons y ys)
  show ?case
  proof (cases "x = y")
    case True
    have "max y n \<le> fold max ys (max y n)" by (rule fold_max_ge)
    with True show ?thesis by simp
  next
    case False
    with Cons show ?thesis by simp
  qed
qed

lemma new_payload_fresh:
  "new_payload chain p mem = (a, mem') \<Longrightarrow>
   a \<notin> set chain \<and> payload_cells mem' = (payload_cells mem)(a := p) \<and>
   sa_cells mem' = sa_cells mem \<and> alloc_plan mem' = alloc_plan mem"
proof -
  assume n: "new_payload chain p mem = (a, mem')"
  then have a: "a = fold max (map Suc chain) (payload_count mem)"
    by (auto simp: new_payload_def Let_def)
  have "a \<notin> set chain"
  proof
    assume "a \<in> set chain"
    then have "Suc a \<in> set (map Suc chain)" by simp
    from fold_max_fresh [OF this, of "payload_count mem"] a show False by simp
  qed
  with n show ?thesis by (auto simp: new_payload_def Let_def)
qed


lemma granted_Nil [simp]: "granted n [] = n"
  by (cases n) simp_all

lemma granted_le: "granted n plan \<le> n"
  by (induction n plan rule: granted.induct) simp_all

lemma granted_Suc:
  "granted (Suc n) plan = Suc n \<longleftrightarrow>
   granted n plan = n \<and> (drop n plan = [] \<or> hd (drop n plan))"
proof (induction n plan rule: granted.induct)
  case (1 plan)
  show ?case
  proof (cases plan)
    case Nil
    then show ?thesis by simp
  next
    case (Cons b r)
    then show ?thesis by (cases b) simp_all
  qed
qed simp_all

lemma allocate_granted:
  "alloc_plan mem' = drop n plan \<Longrightarrow> granted n plan = n \<Longrightarrow>
   fst (allocate mem') = (granted (Suc n) plan = Suc n)"
  by (cases "drop n plan") (auto simp: allocate_def granted_Suc)

lemma allocate_cases:
  "allocate mem =
     (case alloc_plan mem of [] \<Rightarrow> (True, mem) | ok # plan \<Rightarrow> (ok, mem\<lparr>alloc_plan := plan\<rparr>))"
  by (simp add: allocate_def)

lemma error_lines_log [simp]:
  "error_lines (log m lvl txt) = (if lvl = ERROR then error_lines m @ [txt] else error_lines m)"
  by (simp add: error_lines_def log_def)

lemma error_lines_update [simp]:
  "error_lines (m\<lparr>parser := s\<rparr>) = error_lines m"
  "error_lines (m\<lparr>payloads := xs\<rparr>) = error_lines m"
  by (simp_all add: error_lines_def)

lemma parse_payloads_decodes:
  fixes C :: "('g, 'p) collab"
  assumes "decodes C entries (parser m) t ps dst"
  shows "\<exists>m' mem'.
     parse_payloads C entries t m mem =
       Some (if granted (length ps) (alloc_plan mem) < length ps then OUT_OF_RES else dst,
             m', mem') \<and>
     chain_payloads mem' m' =
       chain_payloads mem m @ take (granted (length ps) (alloc_plan mem)) ps \<and>
     take (length (payloads m)) (payloads m') = payloads m \<and>
     alloc_plan mem' =
       drop (min (length ps) (Suc (granted (length ps) (alloc_plan mem)))) (alloc_plan mem) \<and>
     sa_cells mem' = sa_cells mem \<and>
     (granted (length ps) (alloc_plan mem) = length ps \<and> dst = SUCCESS \<longrightarrow>
        error_lines m' = error_lines m)"
  using assms
proof (induction ps arbitrary: t m mem)
  case Nil
  show ?case
  proof (cases "t = NO_PAYLOAD \<or> \<not> is_supported entries t")
    case True
    with Nil show ?thesis
      by (subst parse_payloads.simps) (auto simp: Let_def chain_payloads_def log_def)
  next
    case False
    obtain pst p s' where pp: "parse_payload C (parser m) t = (pst, p, s')"
      by (cases "parse_payload C (parser m) t")
    obtain a mem1 where np: "new_payload (payloads m) p mem = (a, mem1)"
      by (cases "new_payload (payloads m) p mem")
    from new_payload_fresh [OF np] have
      fresh: "a \<notin> set (payloads m)" "payload_cells mem1 = (payload_cells mem)(a := p)"
        "sa_cells mem1 = sa_cells mem" "alloc_plan mem1 = alloc_plan mem"
      by simp_all
    then have same: "map (payload_cells mem1) (payloads m) = map (payload_cells mem) (payloads m)"
      by auto
    from Nil False pp np fresh same show ?thesis
      by (subst parse_payloads.simps) (auto simp: Let_def chain_payloads_def log_def)
  qed
next
  case (Cons p ps)
  let ?m1 = "log m CONTROL_MORE (Start_parsing t)"
  from Cons.prems obtain s' where
    t: "t \<noteq> NO_PAYLOAD" "is_supported entries t" and
    pp: "parse_payload C (parser m) t = (SUCCESS, p, s')" and
    v: "verify C p = SUCCESS" and
    rest: "decodes C entries s' (pl_next p) ps dst"
    by (auto split: prod.splits)
  obtain a mem1 where np: "new_payload (payloads m) p mem = (a, mem1)"
    by (cases "new_payload (payloads m) p mem")
  from new_payload_fresh [OF np] have
    fresh: "a \<notin> set (payloads m)" "payload_cells mem1 = (payload_cells mem)(a := p)"
      "sa_cells mem1 = sa_cells mem" "alloc_plan mem1 = alloc_plan mem"
    by simp_all
  then have same: "map (payload_cells mem1) (payloads m) = map (payload_cells mem) (payloads m)"
    by auto
  show ?case
  proof (cases "alloc_plan mem = [] \<or> hd (alloc_plan mem)")
    case False
    then obtain r where plan: "alloc_plan mem = False # r"
      by (cases "alloc_plan mem") auto
    with fresh have il: "insert_last (payloads m) a mem1 =
        (OUT_OF_RES, payloads m, mem1\<lparr>alloc_plan := r\<rparr>)"
      by (simp add: insert_last_def allocate_def)
    from t pp v np il fresh same plan show ?thesis
      by (subst parse_payloads.simps) (simp add: Let_def chain_payloads_def log_def)
  next
    case True
    let ?mem2 = "mem1\<lparr>alloc_plan := tl (alloc_plan mem)\<rparr>"
    let ?m2 = "?m1\<lparr>parser := s', payloads := payloads m @ [a]\<rparr>"
    from True fresh have il: "insert_last (payloads m) a mem1 =
        (SUCCESS, payloads m @ [a], ?mem2)"
      by (cases "alloc_plan mem") (auto simp: insert_last_def allocate_def)
    have step: "parse_payloads C entries t m mem =
        parse_payloads C entries (pl_next p) ?m2 ?mem2"
      using t pp v np il fresh
      by (subst parse_payloads.simps) (simp add: Let_def log_def)
    have "decodes C entries (parser ?m2) (pl_next p) ps dst"
      using rest by (simp add: log_def)
    from Cons.IH [OF this, of ?mem2] obtain m' mem' where
      r: "parse_payloads C entries (pl_next p) ?m2 ?mem2 =
            Some (if granted (length ps) (alloc_plan ?mem2) < length ps then OUT_OF_RES else dst,
                  m', mem')"
      and c: "chain_payloads mem' m' =
            chain_payloads ?mem2 ?m2 @ take (granted (length ps) (alloc_plan ?mem2)) ps"
      and k: "take (length (payloads ?m2)) (payloads m') = payloads ?m2"
      and a: "alloc_plan mem' =
            drop (min (length ps) (Suc (granted (length ps) (alloc_plan ?mem2))))
              (alloc_plan ?mem2)"
      and s: "sa_cells mem' = sa_cells ?mem2"
      and e: "granted (length ps) (alloc_plan ?mem2) = length ps \<and> dst = SUCCESS \<longrightarrow>
            error_lines m' = error_lines ?m2"
      by blast
    have g: "granted (Suc (length ps)) (alloc_plan mem) =
        Suc (granted (length ps) (tl (alloc_plan mem)))"
      using True by (cases "alloc_plan mem") auto
    have c2: "chain_payloads ?mem2 ?m2 = chain_payloads mem m @ [p]"
      using fresh same by (simp add: chain_payloads_def log_def)
    have k2: "take (length (payloads m)) (payloads m') = payloads m"
    proof -
      have "take (length (payloads m)) (take (length (payloads ?m2)) (payloads m')) =
          take (length (payloads m)) (payloads ?m2)"
        by (simp only: k)
      then show ?thesis by (simp add: log_def min_def)
    qed
    have a2: "alloc_plan mem' =
        drop (min (length (p # ps)) (Suc (granted (length (p # ps)) (alloc_plan mem))))
          (alloc_plan mem)"
      using a g by (cases "alloc_plan mem") (simp_all add: drop_Suc)
    from r c k2 a2 s e g c2 fresh show ?thesis
      by (simp add: step)
  qed
qed

subsection \<open>\<^verbatim>\<open>parse_body\<close> on a body that decodes\<close>

text \<open>
  \<^verbatim>\<open>parse_body\<close> for a message with a rule, on a body that decodes to the payloads \<open>ps\<close>
  and then stops with the status \<open>dst\<close>: its status, the chain afterwards, and the
  error lines of the occurrence check. Every list node and the iterator are allocated,
  so the outcome depends on how many of the next requests are granted.
\<close>

lemma parse_body_rule:
  fixes C :: "('g, 'p) collab"
  assumes "get_supported_payloads m = (SUCCESS, entries)"
  shows "parse_body C m mem =
     (case parse_payloads C entries (first_payload m) (log m CONTROL Parsing_body) mem of
        None \<Rightarrow> None
      | Some (st1, m1, mem1) \<Rightarrow>
          if st1 \<noteq> SUCCESS then Some (st1, m1, mem1)
          else if \<not> fst (allocate mem1)
          then Some (OUT_OF_RES, log m1 ERROR No_iterator, snd (allocate mem1))
          else Some (fst (check_occurences entries m1 (snd (allocate mem1))),
                     snd (check_occurences entries m1 (snd (allocate mem1))),
                     snd (allocate mem1)))"
proof -
  have "get_supported_payloads (log m CONTROL Parsing_body) = (SUCCESS, entries)"
    using assms by (simp add: get_supported_payloads_def get_exchange_type_def get_request_def
        log_def)
  then show ?thesis
    by (auto simp: parse_body_def log_def Let_def
        split: option.splits prod.splits bool.splits)
qed

lemma chain_payloads_allocate [simp]:
  "chain_payloads (snd (allocate mem)) m = chain_payloads mem m"
  by (simp add: chain_payloads_def)

lemma payloads_log [simp]: "payloads (log m lvl txt) = payloads m"
  by (simp add: log_def)

lemma chain_payloads_log [simp]:
  "chain_payloads mem (log m lvl txt) = chain_payloads mem m"
  by (simp add: chain_payloads_def log_def)

lemma granted_Suc_less: "granted (Suc n) plan = Suc n \<Longrightarrow> granted n plan = n"
  by (simp add: granted_Suc)

lemma parse_body_decodes:
  fixes C :: "('g, 'p) collab"
  assumes "get_supported_payloads m = (SUCCESS, entries)"
    and "decodes C entries (parser m) (first_payload m) ps dst"
  shows "\<exists>m1 m' mem'.
     parse_body C m mem =
       Some (if granted (length ps) (alloc_plan mem) < length ps then OUT_OF_RES
             else if dst \<noteq> SUCCESS then dst
             else if granted (Suc (length ps)) (alloc_plan mem) < Suc (length ps)
             then OUT_OF_RES
             else if within_bounds entries (chain_payloads mem m @ ps) then SUCCESS
             else NOT_SUPPORTED,
             m', mem') \<and>
     chain_payloads mem' m' =
       chain_payloads mem m @ take (granted (length ps) (alloc_plan mem)) ps \<and>
     take (length (payloads m)) (payloads m') = payloads m \<and>
     sa_cells mem' = sa_cells mem \<and>
     (granted (Suc (length ps)) (alloc_plan mem) = Suc (length ps) \<and> dst = SUCCESS \<longrightarrow>
        chain_payloads mem' m1 = chain_payloads mem m @ ps \<and>
        error_lines m1 = error_lines m \<and>
        m' = snd (check_occurences entries m1 mem'))"
proof -
  let ?m0 = "log m CONTROL Parsing_body"
  let ?n = "length ps"
  let ?g = "granted ?n (alloc_plan mem)"
  have "decodes C entries (parser ?m0) (first_payload m) ps dst"
    using assms(2) by (simp add: log_def)
  from parse_payloads_decodes [OF this, of mem] obtain m1 mem1 where
    loop: "parse_payloads C entries (first_payload m) ?m0 mem =
        Some (if ?g < ?n then OUT_OF_RES else dst, m1, mem1)"
    and c0: "chain_payloads mem1 m1 = chain_payloads mem ?m0 @ take ?g ps"
    and k0: "take (length (payloads ?m0)) (payloads m1) = payloads ?m0"
    and a: "alloc_plan mem1 = drop (min ?n (Suc ?g)) (alloc_plan mem)"
    and s: "sa_cells mem1 = sa_cells mem"
    and e0: "?g = ?n \<and> dst = SUCCESS \<longrightarrow> error_lines m1 = error_lines ?m0"
    by blast
  from c0 have c: "chain_payloads mem1 m1 = chain_payloads mem m @ take ?g ps"
    by simp
  from k0 have k: "take (length (payloads m)) (payloads m1) = payloads m"
    by (simp add: log_def)
  from e0 have e: "?g = ?n \<and> dst = SUCCESS \<longrightarrow> error_lines m1 = error_lines m"
    by simp
  note pb = parse_body_rule [OF assms(1), of C mem]
  show ?thesis
  proof (cases "?g = ?n \<and> dst = SUCCESS")
    case False
    have "?g \<le> ?n" by (rule granted_le)
    with False have f: "?g < ?n \<or> dst \<noteq> SUCCESS" by auto
    then have "granted (Suc ?n) (alloc_plan mem) = Suc ?n \<longrightarrow> dst \<noteq> SUCCESS"
      by (auto dest: granted_Suc_less)
    moreover from f False loop have "parse_body C m mem =
        Some (if ?g < ?n then OUT_OF_RES else dst, m1, mem1)"
      by (auto simp: pb)
    ultimately show ?thesis using c k s f by auto
  next
    case True
    then have a1: "alloc_plan mem1 = drop ?n (alloc_plan mem)"
      using a by simp
    from allocate_granted [OF a1] True have
      it: "fst (allocate mem1) = (granted (Suc ?n) (alloc_plan mem) = Suc ?n)"
      by simp
    have le: "granted (Suc ?n) (alloc_plan mem) \<le> Suc ?n" by (rule granted_le)
    show ?thesis
    proof (cases "fst (allocate mem1)")
      case False
      with True loop have "parse_body C m mem =
          Some (OUT_OF_RES, log m1 ERROR No_iterator, snd (allocate mem1))"
        by (simp add: pb)
      with False it le True c k s show ?thesis by auto
    next
      case ok: True
      let ?mem2 = "snd (allocate mem1)"
      from ok True loop have r: "parse_body C m mem =
          Some (fst (check_occurences entries m1 ?mem2),
                snd (check_occurences entries m1 ?mem2), ?mem2)"
        by (simp add: pb)
      from check_occurences_within_bounds [of entries m1 ?mem2] c True have
        w: "fst (check_occurences entries m1 ?mem2) =
              (if within_bounds entries (chain_payloads mem m @ ps) then SUCCESS
               else NOT_SUPPORTED)"
        and p: "payloads (snd (check_occurences entries m1 ?mem2)) = payloads m1"
        by simp_all
      from p have c': "chain_payloads ?mem2 (snd (check_occurences entries m1 ?mem2)) =
          chain_payloads ?mem2 m1"
        by (simp add: chain_payloads_def)
      from r w c c' p k s ok it True e show ?thesis
        by auto
    qed
  qed
qed

lemmas body_eval =
  parse_body_def get_supported_payloads_result parse_payloads.simps
  check_occurences_ike_sa_init is_supported_ike_sa_init insert_last_def allocate_def
  new_payload_def log_def Let_def chain_payloads_def


lemma error_lines_check_ike_sa_init:
  "error_lines (snd (check_occurences supported_ike_sa_init_i_payloads m mem)) =
     error_lines m @
     (if 1 < occurrences SECURITY_ASSOCIATION (chain_payloads mem m)
      then [Too_many SECURITY_ASSOCIATION 1 2]
      else if occurrences SECURITY_ASSOCIATION (chain_payloads mem m) < 1
      then [Too_few SECURITY_ASSOCIATION 1]
      else if 1 < occurrences KEY_EXCHANGE (chain_payloads mem m)
      then [Too_many KEY_EXCHANGE 1 2]
      else if occurrences KEY_EXCHANGE (chain_payloads mem m) < 1
      then [Too_few KEY_EXCHANGE 1]
      else if 1 < occurrences NONCE (chain_payloads mem m)
      then [Too_many NONCE 1 2]
      else if occurrences NONCE (chain_payloads mem m) < 1
      then [Too_few NONCE 1]
      else [])"
  by (simp add: check_occurences_ike_sa_init)

lemma granted_Suc_full:
  "granted (Suc n) plan < Suc n \<or> granted (Suc n) plan = Suc n \<and> granted n plan = n"
  using granted_le [of "Suc n" plan] by (auto dest: granted_Suc_less)

subsection \<open>Body parsing on a chain that is not empty\<close>



subsection \<open>The occurrence bounds of \<open>IKE_SA_INIT\<close>\<close>

text \<open>
  Claim C4, as the code has it. Let the body of an \<open>IKE_SA_INIT\<close> message (request or
  response: the two rules are the same) decode completely, to payloads \<open>ps\<close>, and let
  the chain then hold no key-exchange payload. \<^verbatim>\<open>parse_body\<close> returns \<open>OUT_OF_RES\<close> when
  one of the allocations, for the list nodes and for the iterator, fails, and
  \<open>NOT_SUPPORTED\<close> otherwise. In that case every payload of \<open>ps\<close> is in the chain and the
  call has logged one error, the one of the first entry of the rule that is violated: the
  security association above its maximum when it occurs more than once, the security
  association below its minimum when it does not occur, and only when it occurs exactly
  once the key exchange below its minimum of one (line 730).
\<close>

theorem parse_body_missing_key_exchange:
  fixes C :: "('g, 'p) collab"
  assumes "exchange_type m = IKE_SA_INIT"
    and "decodes C supported_ike_sa_init_i_payloads (parser m) (first_payload m) ps SUCCESS"
    and "occurrences KEY_EXCHANGE (chain_payloads mem m @ ps) = 0"
  shows "\<exists>m' mem'.
     parse_body C m mem =
       Some (if granted (Suc (length ps)) (alloc_plan mem) < Suc (length ps) then OUT_OF_RES
             else NOT_SUPPORTED,
             m', mem') \<and>
     (granted (Suc (length ps)) (alloc_plan mem) = Suc (length ps) \<longrightarrow>
        chain_payloads mem' m' = chain_payloads mem m @ ps \<and>
        error_lines m' =
          error_lines m @
          [if 1 < occurrences SECURITY_ASSOCIATION (chain_payloads mem m @ ps)
           then Too_many SECURITY_ASSOCIATION 1 2
           else if occurrences SECURITY_ASSOCIATION (chain_payloads mem m @ ps) = 0
           then Too_few SECURITY_ASSOCIATION 1
           else Too_few KEY_EXCHANGE 1])"
proof -
  let ?E = "supported_ike_sa_init_i_payloads"
  let ?n = "length ps"
  from assms(1) have r: "get_supported_payloads m = (SUCCESS, ?E)"
    by (simp add: get_supported_payloads_result)
  from assms(3) have nb: "\<not> within_bounds ?E (chain_payloads mem m @ ps)"
    by (simp add: within_bounds_ike_sa_init)
  from parse_body_decodes [OF r assms(2), of mem] obtain m1 m' mem' where
    pb: "parse_body C m mem =
       Some (if granted ?n (alloc_plan mem) < ?n then OUT_OF_RES
             else if SUCCESS \<noteq> SUCCESS then SUCCESS
             else if granted (Suc ?n) (alloc_plan mem) < Suc ?n then OUT_OF_RES
             else if within_bounds ?E (chain_payloads mem m @ ps) then SUCCESS
             else NOT_SUPPORTED,
             m', mem')"
    and c: "chain_payloads mem' m' = chain_payloads mem m @ take (granted ?n (alloc_plan mem)) ps"
    and ok: "granted (Suc ?n) (alloc_plan mem) = Suc ?n \<and> SUCCESS = SUCCESS \<longrightarrow>
        chain_payloads mem' m1 = chain_payloads mem m @ ps \<and>
        error_lines m1 = error_lines m \<and>
        m' = snd (check_occurences ?E m1 mem')"
    by blast
  from granted_Suc_full [of ?n "alloc_plan mem"] pb nb have pb': "parse_body C m mem =
       Some (if granted (Suc ?n) (alloc_plan mem) < Suc ?n then OUT_OF_RES else NOT_SUPPORTED,
             m', mem')"
    by auto
  have "granted (Suc ?n) (alloc_plan mem) = Suc ?n \<longrightarrow>
        chain_payloads mem' m' = chain_payloads mem m @ ps \<and>
        error_lines m' =
          error_lines m @
          [if 1 < occurrences SECURITY_ASSOCIATION (chain_payloads mem m @ ps)
           then Too_many SECURITY_ASSOCIATION 1 2
           else if occurrences SECURITY_ASSOCIATION (chain_payloads mem m @ ps) = 0
           then Too_few SECURITY_ASSOCIATION 1
           else Too_few KEY_EXCHANGE 1]"
  proof
    assume g: "granted (Suc ?n) (alloc_plan mem) = Suc ?n"
    with ok have m1: "chain_payloads mem' m1 = chain_payloads mem m @ ps"
      "error_lines m1 = error_lines m" "m' = snd (check_occurences ?E m1 mem')"
      by simp_all
    from g have "granted ?n (alloc_plan mem) = ?n" by (rule granted_Suc_less)
    with c have "chain_payloads mem' m' = chain_payloads mem m @ ps" by simp
    moreover have "error_lines m' =
          error_lines m @
          [if 1 < occurrences SECURITY_ASSOCIATION (chain_payloads mem m @ ps)
           then Too_many SECURITY_ASSOCIATION 1 2
           else if occurrences SECURITY_ASSOCIATION (chain_payloads mem m @ ps) = 0
           then Too_few SECURITY_ASSOCIATION 1
           else Too_few KEY_EXCHANGE 1]"
      using assms(3) unfolding m1(3) error_lines_check_ike_sa_init m1(1,2)
      by simp
    ultimately show "chain_payloads mem' m' = chain_payloads mem m @ ps \<and>
        error_lines m' =
          error_lines m @
          [if 1 < occurrences SECURITY_ASSOCIATION (chain_payloads mem m @ ps)
           then Too_many SECURITY_ASSOCIATION 1 2
           else if occurrences SECURITY_ASSOCIATION (chain_payloads mem m @ ps) = 0
           then Too_few SECURITY_ASSOCIATION 1
           else Too_few KEY_EXCHANGE 1]"
      by simp
  qed
  with pb' show ?thesis by blast
qed

text \<open>
  An instance: a security-association and a nonce payload, all allocations granted. The
  error is the missing key exchange.
\<close>

theorem parse_body_missing_key_exchange_witness:
  "parse_body wire_collab (header_parsed no_ke_bytes SECURITY_ASSOCIATION) memory_1 =
     Some (NOT_SUPPORTED,
       (header_parsed no_ke_bytes SECURITY_ASSOCIATION)
         \<lparr>payloads := [0, 1],
          parser := \<lparr>wp_input = no_ke_bytes, wp_pos = 43\<rparr>,
          logger := [(CONTROL, Parsing_header), (CONTROL, Header_parsed),
                     (CONTROL, Parsing_body),
                     (CONTROL_MORE, Start_parsing SECURITY_ASSOCIATION),
                     (CONTROL_MORE, Start_parsing NONCE),
                     (ERROR, Too_few KEY_EXCHANGE 1)]\<rparr>,
       memory_1\<lparr>payload_cells := payload_store [sa_payload\<lparr>pl_next := NONCE\<rparr>, nonce_payload],
                payload_count := 2\<rparr>) \<and>
   error_lines
       ((header_parsed no_ke_bytes SECURITY_ASSOCIATION)
         \<lparr>payloads := [0, 1],
          parser := \<lparr>wp_input = no_ke_bytes, wp_pos = 43\<rparr>,
          logger := [(CONTROL, Parsing_header), (CONTROL, Header_parsed),
                     (CONTROL, Parsing_body),
                     (CONTROL_MORE, Start_parsing SECURITY_ASSOCIATION),
                     (CONTROL_MORE, Start_parsing NONCE),
                     (ERROR, Too_few KEY_EXCHANGE 1)]\<rparr>) =
     [Too_few KEY_EXCHANGE 1]"
proof -
  let ?E = "supported_ike_sa_init_i_payloads"
  let ?M = "header_parsed no_ke_bytes SECURITY_ASSOCIATION"
  let ?M' = "(header_parsed no_ke_bytes SECURITY_ASSOCIATION)
         \<lparr>payloads := [0, 1],
          parser := \<lparr>wp_input = no_ke_bytes, wp_pos = 43\<rparr>,
          logger := [(CONTROL, Parsing_header), (CONTROL, Header_parsed),
                     (CONTROL, Parsing_body),
                     (CONTROL_MORE, Start_parsing SECURITY_ASSOCIATION),
                     (CONTROL_MORE, Start_parsing NONCE),
                     (ERROR, Too_few KEY_EXCHANGE 1)]\<rparr>"
  let ?mem' = "memory_1\<lparr>payload_cells :=
                  payload_store [sa_payload\<lparr>pl_next := NONCE\<rparr>, nonce_payload],
                payload_count := 2\<rparr>"
  let ?ps = "[sa_payload\<lparr>pl_next := NONCE\<rparr>, nonce_payload]"
  have x: "exchange_type ?M = IKE_SA_INIT"
    by (simp add: bytes_defs)
  have d: "decodes wire_collab ?E (parser ?M) (first_payload ?M) ?ps SUCCESS"
    by (simp add: is_supported_ike_sa_init wire_defs instance_defs bytes_defs)
  have old: "chain_payloads memory_1 ?M = []" "error_lines ?M = []"
    by (simp_all add: chain_payloads_def error_lines_def bytes_defs instance_defs)
  have k: "occurrences KEY_EXCHANGE (chain_payloads memory_1 ?M @ ?ps) = 0"
    "occurrences SECURITY_ASSOCIATION (chain_payloads memory_1 ?M @ ?ps) = 1"
    by (simp_all add: old sa_payload_def ke_payload_def nonce_payload_def)
  have plan: "granted (Suc (length ?ps)) (alloc_plan memory_1) = Suc (length ?ps)"
    by (simp add: memory_1_def)
  have e: "parse_body wire_collab ?M memory_1 = Some (NOT_SUPPORTED, ?M', ?mem')"
    by (simp add: body_eval wire_defs instance_defs bytes_defs)
  from parse_body_missing_key_exchange [OF x d k(1)] plan obtain st m' mem' where
    r: "parse_body wire_collab ?M memory_1 = Some (st, m', mem')"
    and l: "error_lines m' =
        error_lines ?M @
        [if 1 < occurrences SECURITY_ASSOCIATION (chain_payloads memory_1 ?M @ ?ps)
         then Too_many SECURITY_ASSOCIATION 1 2
         else if occurrences SECURITY_ASSOCIATION (chain_payloads memory_1 ?M @ ?ps) = 0
         then Too_few SECURITY_ASSOCIATION 1
         else Too_few KEY_EXCHANGE 1]"
    by blast
  from r e have "m' = ?M'" by simp
  with l have "error_lines ?M' = [Too_few KEY_EXCHANGE 1]"
    by (simp only: k) (simp add: old)
  with e show ?thesis by blast
qed

text \<open>
  Claim C4 as stated fails, in its reason and in its status. A received \<open>IKE_SA_INIT\<close>
  request with two security-association payloads and a nonce payload, and no key
  exchange: the call fails at the first entry of the rule, the security association
  above its maximum, and the key-exchange entry is never checked. And the request with
  one security association and one nonce, in a store that grants the two list nodes and
  refuses the iterator: the status is \<open>OUT_OF_RES\<close> (lines 688--693), and no occurrence is
  counted.
\<close>

theorem parse_body_missing_key_exchange_counterexample:
  "parse_header wire_collab (received_message two_sa_bytes) empty_memory =
     Inr (SUCCESS, header_parsed two_sa_bytes SECURITY_ASSOCIATION, memory_1) \<and>
   exchange_type (header_parsed two_sa_bytes SECURITY_ASSOCIATION) = IKE_SA_INIT \<and>
   is_request (header_parsed two_sa_bytes SECURITY_ASSOCIATION) \<and>
   parse_body wire_collab (header_parsed two_sa_bytes SECURITY_ASSOCIATION) memory_1 =
     Some (NOT_SUPPORTED,
       (header_parsed two_sa_bytes SECURITY_ASSOCIATION)
         \<lparr>payloads := [0, 1, 2],
          parser := \<lparr>wp_input = two_sa_bytes, wp_pos = 50\<rparr>,
          logger := [(CONTROL, Parsing_header), (CONTROL, Header_parsed),
                     (CONTROL, Parsing_body),
                     (CONTROL_MORE, Start_parsing SECURITY_ASSOCIATION),
                     (CONTROL_MORE, Start_parsing SECURITY_ASSOCIATION),
                     (CONTROL_MORE, Start_parsing NONCE),
                     (ERROR, Too_many SECURITY_ASSOCIATION 1 2)]\<rparr>,
       memory_1\<lparr>payload_cells :=
                  payload_store [sa_payload\<lparr>pl_next := SECURITY_ASSOCIATION\<rparr>,
                                 sa_payload\<lparr>pl_next := NONCE\<rparr>, nonce_payload],
                payload_count := 3\<rparr>) \<and>
   occurrences SECURITY_ASSOCIATION
     [sa_payload\<lparr>pl_next := SECURITY_ASSOCIATION\<rparr>, sa_payload\<lparr>pl_next := NONCE\<rparr>,
      nonce_payload] = 2 \<and>
   occurrences NONCE
     [sa_payload\<lparr>pl_next := SECURITY_ASSOCIATION\<rparr>, sa_payload\<lparr>pl_next := NONCE\<rparr>,
      nonce_payload] = 1 \<and>
   occurrences KEY_EXCHANGE
     [sa_payload\<lparr>pl_next := SECURITY_ASSOCIATION\<rparr>, sa_payload\<lparr>pl_next := NONCE\<rparr>,
      nonce_payload] = 0 \<and>
   parse_body wire_collab (header_parsed no_ke_bytes SECURITY_ASSOCIATION)
       (memory_1\<lparr>alloc_plan := [True, True, False]\<rparr>) =
     Some (OUT_OF_RES,
       (header_parsed no_ke_bytes SECURITY_ASSOCIATION)
         \<lparr>payloads := [0, 1],
          parser := \<lparr>wp_input = no_ke_bytes, wp_pos = 43\<rparr>,
          logger := [(CONTROL, Parsing_header), (CONTROL, Header_parsed),
                     (CONTROL, Parsing_body),
                     (CONTROL_MORE, Start_parsing SECURITY_ASSOCIATION),
                     (CONTROL_MORE, Start_parsing NONCE),
                     (ERROR, No_iterator)]\<rparr>,
       memory_1\<lparr>payload_cells := payload_store [sa_payload\<lparr>pl_next := NONCE\<rparr>, nonce_payload],
                payload_count := 2\<rparr>)"
  by (simp add: body_eval parse_header_def ike_sa_id_create_def wire_defs instance_defs
      bytes_defs)

text \<open>
  Claim C3, as the code has it. Let the body of an \<open>IKE_SA_INIT\<close> message decode
  completely, to payloads \<open>ps\<close>, and let the chain then hold at least two nonce payloads.
  \<^verbatim>\<open>parse_body\<close> returns \<open>OUT_OF_RES\<close> when one of the allocations, for the list nodes and
  for the iterator, fails, and \<open>NOT_SUPPORTED\<close> otherwise. In that case the loop has
  accepted every payload, the second nonce too (it checks the type of a payload against
  the rule, not its number): all of \<open>ps\<close> is in the chain, and the one error of the call
  comes from the occurrence check. The entries are checked in the order of the rule, so
  that error is the one of line 720 for \<open>NONCE\<close>, raised at the second nonce counted
  (\<open>found_payloads = 2\<close>), exactly when the security association and the key exchange
  each occur once; otherwise it is the error of the first of these two entries that is
  violated, raised before any nonce is counted.
\<close>

theorem parse_body_second_nonce:
  fixes C :: "('g, 'p) collab"
  assumes "exchange_type m = IKE_SA_INIT"
    and "decodes C supported_ike_sa_init_i_payloads (parser m) (first_payload m) ps SUCCESS"
    and "2 \<le> occurrences NONCE (chain_payloads mem m @ ps)"
  shows "\<exists>m' mem'.
     parse_body C m mem =
       Some (if granted (Suc (length ps)) (alloc_plan mem) < Suc (length ps) then OUT_OF_RES
             else NOT_SUPPORTED,
             m', mem') \<and>
     (granted (Suc (length ps)) (alloc_plan mem) = Suc (length ps) \<longrightarrow>
        chain_payloads mem' m' = chain_payloads mem m @ ps \<and>
        error_lines m' =
          error_lines m @
          [if 1 < occurrences SECURITY_ASSOCIATION (chain_payloads mem m @ ps)
           then Too_many SECURITY_ASSOCIATION 1 2
           else if occurrences SECURITY_ASSOCIATION (chain_payloads mem m @ ps) = 0
           then Too_few SECURITY_ASSOCIATION 1
           else if 1 < occurrences KEY_EXCHANGE (chain_payloads mem m @ ps)
           then Too_many KEY_EXCHANGE 1 2
           else if occurrences KEY_EXCHANGE (chain_payloads mem m @ ps) = 0
           then Too_few KEY_EXCHANGE 1
           else Too_many NONCE 1 2])"
proof -
  let ?E = "supported_ike_sa_init_i_payloads"
  let ?n = "length ps"
  from assms(1) have r: "get_supported_payloads m = (SUCCESS, ?E)"
    by (simp add: get_supported_payloads_result)
  from assms(3) have nb: "\<not> within_bounds ?E (chain_payloads mem m @ ps)"
    by (simp add: within_bounds_ike_sa_init)
  from parse_body_decodes [OF r assms(2), of mem] obtain m1 m' mem' where
    pb: "parse_body C m mem =
       Some (if granted ?n (alloc_plan mem) < ?n then OUT_OF_RES
             else if SUCCESS \<noteq> SUCCESS then SUCCESS
             else if granted (Suc ?n) (alloc_plan mem) < Suc ?n then OUT_OF_RES
             else if within_bounds ?E (chain_payloads mem m @ ps) then SUCCESS
             else NOT_SUPPORTED,
             m', mem')"
    and c: "chain_payloads mem' m' = chain_payloads mem m @ take (granted ?n (alloc_plan mem)) ps"
    and ok: "granted (Suc ?n) (alloc_plan mem) = Suc ?n \<and> SUCCESS = SUCCESS \<longrightarrow>
        chain_payloads mem' m1 = chain_payloads mem m @ ps \<and>
        error_lines m1 = error_lines m \<and>
        m' = snd (check_occurences ?E m1 mem')"
    by blast
  from granted_Suc_full [of ?n "alloc_plan mem"] pb nb have pb': "parse_body C m mem =
       Some (if granted (Suc ?n) (alloc_plan mem) < Suc ?n then OUT_OF_RES else NOT_SUPPORTED,
             m', mem')"
    by auto
  let ?line = "if 1 < occurrences SECURITY_ASSOCIATION (chain_payloads mem m @ ps)
           then Too_many SECURITY_ASSOCIATION 1 2
           else if occurrences SECURITY_ASSOCIATION (chain_payloads mem m @ ps) = 0
           then Too_few SECURITY_ASSOCIATION 1
           else if 1 < occurrences KEY_EXCHANGE (chain_payloads mem m @ ps)
           then Too_many KEY_EXCHANGE 1 2
           else if occurrences KEY_EXCHANGE (chain_payloads mem m @ ps) = 0
           then Too_few KEY_EXCHANGE 1
           else Too_many NONCE 1 2"
  have "granted (Suc ?n) (alloc_plan mem) = Suc ?n \<longrightarrow>
        chain_payloads mem' m' = chain_payloads mem m @ ps \<and>
        error_lines m' = error_lines m @ [?line]"
  proof
    assume g: "granted (Suc ?n) (alloc_plan mem) = Suc ?n"
    with ok have m1: "chain_payloads mem' m1 = chain_payloads mem m @ ps"
      "error_lines m1 = error_lines m" "m' = snd (check_occurences ?E m1 mem')"
      by simp_all
    from g have "granted ?n (alloc_plan mem) = ?n" by (rule granted_Suc_less)
    with c have "chain_payloads mem' m' = chain_payloads mem m @ ps" by simp
    moreover have "error_lines m' = error_lines m @ [?line]"
      using assms(3) unfolding m1(3) error_lines_check_ike_sa_init m1(1,2)
      by simp
    ultimately show "chain_payloads mem' m' = chain_payloads mem m @ ps \<and>
        error_lines m' = error_lines m @ [?line]"
      by simp
  qed
  with pb' show ?thesis by blast
qed

text \<open>
  An instance: security association, key exchange and two nonce payloads, all
  allocations granted. The error is the second nonce.
\<close>

theorem parse_body_second_nonce_witness:
  "parse_body wire_collab (header_parsed extra_nonce_bytes SECURITY_ASSOCIATION) memory_1 =
     Some (NOT_SUPPORTED,
       (header_parsed extra_nonce_bytes SECURITY_ASSOCIATION)
         \<lparr>payloads := [0, 1, 2, 3],
          parser := \<lparr>wp_input = extra_nonce_bytes, wp_pos = 57\<rparr>,
          logger := [(CONTROL, Parsing_header), (CONTROL, Header_parsed),
                     (CONTROL, Parsing_body),
                     (CONTROL_MORE, Start_parsing SECURITY_ASSOCIATION),
                     (CONTROL_MORE, Start_parsing KEY_EXCHANGE),
                     (CONTROL_MORE, Start_parsing NONCE),
                     (CONTROL_MORE, Start_parsing NONCE),
                     (ERROR, Too_many NONCE 1 2)]\<rparr>,
       memory_1\<lparr>payload_cells :=
                  payload_store [sa_payload\<lparr>pl_next := KEY_EXCHANGE\<rparr>,
                                 ke_payload\<lparr>pl_next := NONCE\<rparr>,
                                 nonce_payload\<lparr>pl_next := NONCE\<rparr>, nonce_payload],
                payload_count := 4\<rparr>) \<and>
   error_lines
       ((header_parsed extra_nonce_bytes SECURITY_ASSOCIATION)
         \<lparr>payloads := [0, 1, 2, 3],
          parser := \<lparr>wp_input = extra_nonce_bytes, wp_pos = 57\<rparr>,
          logger := [(CONTROL, Parsing_header), (CONTROL, Header_parsed),
                     (CONTROL, Parsing_body),
                     (CONTROL_MORE, Start_parsing SECURITY_ASSOCIATION),
                     (CONTROL_MORE, Start_parsing KEY_EXCHANGE),
                     (CONTROL_MORE, Start_parsing NONCE),
                     (CONTROL_MORE, Start_parsing NONCE),
                     (ERROR, Too_many NONCE 1 2)]\<rparr>) =
     [Too_many NONCE 1 2]"
proof -
  let ?E = "supported_ike_sa_init_i_payloads"
  let ?M = "header_parsed extra_nonce_bytes SECURITY_ASSOCIATION"
  let ?M' = "(header_parsed extra_nonce_bytes SECURITY_ASSOCIATION)
         \<lparr>payloads := [0, 1, 2, 3],
          parser := \<lparr>wp_input = extra_nonce_bytes, wp_pos = 57\<rparr>,
          logger := [(CONTROL, Parsing_header), (CONTROL, Header_parsed),
                     (CONTROL, Parsing_body),
                     (CONTROL_MORE, Start_parsing SECURITY_ASSOCIATION),
                     (CONTROL_MORE, Start_parsing KEY_EXCHANGE),
                     (CONTROL_MORE, Start_parsing NONCE),
                     (CONTROL_MORE, Start_parsing NONCE),
                     (ERROR, Too_many NONCE 1 2)]\<rparr>"
  let ?mem' = "memory_1\<lparr>payload_cells :=
                  payload_store [sa_payload\<lparr>pl_next := KEY_EXCHANGE\<rparr>,
                                 ke_payload\<lparr>pl_next := NONCE\<rparr>,
                                 nonce_payload\<lparr>pl_next := NONCE\<rparr>, nonce_payload],
                payload_count := 4\<rparr>"
  let ?ps = "[sa_payload\<lparr>pl_next := KEY_EXCHANGE\<rparr>, ke_payload\<lparr>pl_next := NONCE\<rparr>,
       nonce_payload\<lparr>pl_next := NONCE\<rparr>, nonce_payload]"
  have x: "exchange_type ?M = IKE_SA_INIT"
    by (simp add: bytes_defs)
  have d: "decodes wire_collab ?E (parser ?M) (first_payload ?M) ?ps SUCCESS"
    by (simp add: is_supported_ike_sa_init wire_defs instance_defs bytes_defs)
  have old: "chain_payloads memory_1 ?M = []" "error_lines ?M = []"
    by (simp_all add: chain_payloads_def error_lines_def bytes_defs instance_defs)
  have k: "2 \<le> occurrences NONCE (chain_payloads memory_1 ?M @ ?ps)"
    "occurrences SECURITY_ASSOCIATION (chain_payloads memory_1 ?M @ ?ps) = 1"
    "occurrences KEY_EXCHANGE (chain_payloads memory_1 ?M @ ?ps) = 1"
    by (simp_all add: old sa_payload_def ke_payload_def nonce_payload_def)
  have plan: "granted (Suc (length ?ps)) (alloc_plan memory_1) = Suc (length ?ps)"
    by (simp add: memory_1_def)
  have e: "parse_body wire_collab ?M memory_1 = Some (NOT_SUPPORTED, ?M', ?mem')"
    by (simp add: body_eval wire_defs instance_defs bytes_defs)
  from parse_body_second_nonce [OF x d k(1)] plan obtain st m' mem' where
    r: "parse_body wire_collab ?M memory_1 = Some (st, m', mem')"
    and l: "error_lines m' =
        error_lines ?M @
        [if 1 < occurrences SECURITY_ASSOCIATION (chain_payloads memory_1 ?M @ ?ps)
         then Too_many SECURITY_ASSOCIATION 1 2
         else if occurrences SECURITY_ASSOCIATION (chain_payloads memory_1 ?M @ ?ps) = 0
         then Too_few SECURITY_ASSOCIATION 1
         else if 1 < occurrences KEY_EXCHANGE (chain_payloads memory_1 ?M @ ?ps)
         then Too_many KEY_EXCHANGE 1 2
         else if occurrences KEY_EXCHANGE (chain_payloads memory_1 ?M @ ?ps) = 0
         then Too_few KEY_EXCHANGE 1
         else Too_many NONCE 1 2]"
    by blast
  from r e have "m' = ?M'" by simp
  with l have "error_lines ?M' = [Too_many NONCE 1 2]"
    by (simp only: k) (simp add: old)
  with e show ?thesis by blast
qed

text \<open>
  Claim C3 as stated fails: a received \<open>IKE_SA_INIT\<close> request whose body is two nonce
  payloads. The header parses, the loop decodes both payloads, and the check stops at the
  first entry of the rule: the error is the missing security association, raised before
  any nonce is counted.
\<close>

theorem parse_body_second_nonce_counterexample:
  "parse_header wire_collab (received_message two_nonce_bytes) empty_memory =
     Inr (SUCCESS, header_parsed two_nonce_bytes NONCE, memory_1) \<and>
   exchange_type (header_parsed two_nonce_bytes NONCE) = IKE_SA_INIT \<and>
   is_request (header_parsed two_nonce_bytes NONCE) \<and>
   parse_body wire_collab (header_parsed two_nonce_bytes NONCE) memory_1 =
     Some (NOT_SUPPORTED,
       (header_parsed two_nonce_bytes NONCE)
         \<lparr>payloads := [0, 1],
          parser := \<lparr>wp_input = two_nonce_bytes, wp_pos = 44\<rparr>,
          logger := [(CONTROL, Parsing_header), (CONTROL, Header_parsed),
                     (CONTROL, Parsing_body), (CONTROL_MORE, Start_parsing NONCE),
                     (CONTROL_MORE, Start_parsing NONCE),
                     (ERROR, Too_few SECURITY_ASSOCIATION 1)]\<rparr>,
       memory_1\<lparr>payload_cells := payload_store [nonce_payload\<lparr>pl_next := NONCE\<rparr>, nonce_payload],
                payload_count := 2\<rparr>) \<and>
   occurrences NONCE [nonce_payload\<lparr>pl_next := NONCE\<rparr>, nonce_payload] = 2"
  by (simp add: body_eval parse_header_def ike_sa_id_create_def wire_defs instance_defs
      bytes_defs)

end
